theory Spec2Isabelle
  imports Complex_Main
begin

section \<open>Data model of the wallet and registration server\<close>

text \<open>
  The development embeds the registration, ledger, manual-transaction and award
  handlers of \<^verbatim>\<open>src/test-registration.js\<close> (the server part of that file).

  Modelling decisions, all visible in the definitions below:
  \<^item> Amounts, counts and positions are JavaScript Numbers in the source: doubles. A
    finite double is a rational number, so the model's numbers are of type \<open>rat\<close>.
    Comparison, negation and \<open>Math.abs\<close> of doubles are exact; \<open>+\<close> and \<open>-\<close>
    compute the exact result and round it to a double. The rounding is the field
    \<open>rnd\<close> of the \<open>runtime\<close> the handlers take as a parameter, so a theorem about
    every runtime holds for the rounding of the language; \<open>roundDouble\<close> below is
    that rounding (to the nearest double, ties to the even mantissa). \<open>Infinity\<close>
    and \<open>NaN\<close> are not numbers of the model.
  \<^item> ObjectIds are strings; \<open>findById\<close> is a lookup in a map. The driver casts the
    id first and throws on a string it cannot cast. This is modelled in the award
    and manual-transaction handlers, whose ids come with the request body, through
    the field \<open>isValidId\<close> of the runtime. In the registration handler the id of
    the authenticated user and the tournament id of the path are taken to be
    well-formed; its theorems are about a tournament that is found.
  \<^item> A Number put into a template literal is rendered by the language; the rendering
    is the field \<open>showNumber\<close> of the runtime.
  \<^item> A collection with documents is a list in insertion order; a unique index is
    checked by the save operation, as the storage layer does.
  \<^item> \<open>console.log\<close> and \<open>console.error\<close> append the fixed part of their message
    to the \<open>console\<close> field of the state (the interpolated values and the rendering
    of the error object are left out).
  \<^item> The only storage fault that is modelled is the Transaction collection being
    unreachable for the duration of a call: the parameter \<open>up\<close> of
    \<open>logTransaction\<close> and of the handlers.
  \<^item> Strings are lists of 8-bit characters (code units below 256).
\<close>

type_synonym oid = string

datatype jsval = JUndefined | JNull | JBool bool | JNum rat | JStr string

text \<open>JavaScript truthiness, as used by \<^verbatim>\<open>!termsAccepted\<close>.\<close>

fun truthy :: "jsval \<Rightarrow> bool" where
  "truthy JUndefined = False"
| "truthy JNull = False"
| "truthy (JBool b) = b"
| "truthy (JNum n) = (n \<noteq> 0)"
| "truthy (JStr s) = (s \<noteq> [])"

text \<open>
  What the language and the storage driver provide and the repository does not
  define: the rounding of an exact sum or difference to a double, the test whether a
  string casts to an ObjectId, and the rendering of a Number in a template literal.
\<close>

record runtime =
  rnd :: "rat \<Rightarrow> rat"
  isValidId :: "string \<Rightarrow> bool"
  showNumber :: "rat \<Rightarrow> string"

definition jsAdd :: "runtime \<Rightarrow> rat \<Rightarrow> rat \<Rightarrow> rat" where
  "jsAdd env a b = rnd env (a + b)"

definition jsSub :: "runtime \<Rightarrow> rat \<Rightarrow> rat \<Rightarrow> rat" where
  "jsSub env a b = rnd env (a - b)"

datatype tstatus = Upcoming | Active | Completed

datatype teamsize = OneVsOne | TwoVTwo | FourVFour | SixVSix

record user =
  depositAmount :: rat
  winningAmount :: rat

record tournament =
  tournamentId :: string
  teamSize :: "teamsize option"
  entryFee :: rat
  maxSlots :: rat
  registeredPlayers :: rat
  status :: tstatus
  registeredUsers :: "oid list"

record transaction =
  txUserId :: oid
  txType :: string
  txAmount :: rat
  txDescription :: string
  txReference :: string
  txReferenceType :: string
  txStatus :: string
  txMetaTournamentId :: "oid option"

record registration =
  regUserId :: oid
  regTournamentId :: oid
  regTournamentIdString :: string
  regFreeFireId :: string
  regTermsAccepted :: bool
  regTeamSelection :: "string option"
  regEntryFee :: rat
  regPaymentMethod :: string
  regSnapTeamSize :: "teamsize option"

record db =
  users :: "oid \<rightharpoonup> user"
  tournaments :: "oid \<rightharpoonup> tournament"
  transactions :: "transaction list"
  registrations :: "registration list"
  console :: "string list"

text \<open>
  Exceptions thrown by the storage layer (\<open>DuplicateKey\<close> is error code 11000,
  \<open>CastError\<close> is thrown for an id that does not cast to an ObjectId).
\<close>

datatype exn = DuplicateKey | ValidationError | StorageError | CastError

text \<open>
  The failure replies of the handlers. Each constructor stands for one
  \<^verbatim>\<open>res.status(...).json({ message: ... })\<close> of the source; \<open>httpStatus\<close> gives the
  status code.
\<close>

datatype failure =
    TournamentNotFound
  | RegistrationClosed
  | TournamentFull
  | AlreadyRegistered
  | FreeFireIdRequired
  | TermsNotAccepted
  | FreeFireIdNotNumeric
  | TeamSelectionRequired
  | UserNotFound
  | InsufficientBalance rat rat
  | BalanceCalculationError
  | DuplicateRegistration
  | ServerError
  | AdminRequired
  | MissingFields
  | InvalidTransactionType
  | InsufficientBalanceManual
  | DuplicateTransactionReference
  | InvalidRequestData
  | TournamentNotCompleted

fun httpStatus :: "failure \<Rightarrow> nat" where
  "httpStatus TournamentNotFound = 404"
| "httpStatus UserNotFound = 404"
| "httpStatus ServerError = 500"
| "httpStatus AdminRequired = 403"
| "httpStatus _ = 400"

section \<open>Decimal rendering of whole numbers\<close>

text \<open>
  The decimal rendering of an integer: what a template literal prints for a whole
  number below \<open>10^21\<close> in magnitude. It is used by the runtime of the examples
  only (\<open>showWhole\<close> below).
\<close>

fun showNat :: "nat \<Rightarrow> string" where
  "showNat n =
     (if n < 10 then [char_of (48 + n)]
      else showNat (n div 10) @ [char_of (48 + n mod 10)])"

declare showNat.simps [simp del]

definition showInt :: "int \<Rightarrow> string" where
  "showInt i = (if i < 0 then CHR ''-'' # showNat (nat (- i)) else showNat (nat i))"

section \<open>DeductionPolicy: deposit first, then winning\<close>

text \<open>
  Lines 996--1029 of the registration handler: the total-balance check, the
  deduction from the deposit account and the deduction of the remainder from the
  winning account. Every \<open>+\<close>, \<open>-\<close>, \<open>+=\<close> and \<open>-=\<close> of the source is a rounded
  operation; the assignments \<open>remainingFee = 0\<close> and \<open>depositAmount = 0\<close> are not.
  The result is
  \<open>(deductedFromDeposit, deductedFromWinning, depositAmount', winningAmount')\<close>.
\<close>

definition deductFee ::
  "runtime \<Rightarrow> rat \<Rightarrow> rat \<Rightarrow> rat \<Rightarrow> failure + (rat \<times> rat \<times> rat \<times> rat)" where
  "deductFee env d w fee =
     (let totalBalance = jsAdd env d w in
      if totalBalance < fee then Inl (InsufficientBalance fee totalBalance)
      else
        let (deductedFromDeposit, d', remainingFee) =
              (if d \<ge> fee then (fee, jsSub env d fee, 0) else (d, 0, jsSub env fee d))
        in if remainingFee > 0
           then (if w \<ge> remainingFee
                 then Inr (deductedFromDeposit, remainingFee, d', jsSub env w remainingFee)
                 else Inl BalanceCalculationError)
           else Inr (deductedFromDeposit, 0, d', w))"

section \<open>TransactionLedger: logTransaction\<close>

definition txKey :: "transaction \<Rightarrow> oid \<times> string \<times> string" where
  "txKey t = (txUserId t, txReference t, txReferenceType t)"

text \<open>The validators of \<open>transactionSchema\<close> (required fields and enums).\<close>

definition validTransaction :: "transaction \<Rightarrow> bool" where
  "validTransaction t \<longleftrightarrow>
     txType t \<in> set [''deposit'', ''winning'', ''entry_fee'', ''withdrawal''] \<and>
     txDescription t \<noteq> [] \<and>
     txReference t \<noteq> [] \<and>
     txReferenceType t \<in> set [''payment_id'', ''tournament_id'', ''withdrawal_id''] \<and>
     txStatus t \<in> set [''completed'', ''pending'', ''failed'']"

text \<open>
  \<open>transaction.save()\<close>: validation, then the insert, which the unique index on
  \<open>(userId, reference, referenceType)\<close> may refuse.
\<close>

definition saveTransaction :: "bool \<Rightarrow> db \<Rightarrow> transaction \<Rightarrow> exn + db" where
  "saveTransaction up s t =
     (if \<not> validTransaction t then Inl ValidationError
      else if \<not> up then Inl StorageError
      else if txKey t \<in> set (map txKey (transactions s)) then Inl DuplicateKey
      else Inr (s\<lparr>transactions := transactions s @ [t]\<rparr>))"

definition findOneTransaction :: "db \<Rightarrow> oid \<Rightarrow> string \<Rightarrow> string \<Rightarrow> transaction option" where
  "findOneTransaction s userId reference referenceType =
     find (\<lambda>t. txKey t = (userId, reference, referenceType)) (transactions s)"

text \<open>
  \<open>logTransaction\<close> (lines 1302--1334): look the key up, return an existing entry
  unchanged, otherwise build and save a new one. Any exception is written to the
  console and thrown again; \<open>Inl\<close> is the thrown exception.
\<close>

definition logTransaction ::
  "bool \<Rightarrow> db \<Rightarrow> oid \<Rightarrow> string \<Rightarrow> rat \<Rightarrow> string \<Rightarrow> string \<Rightarrow> string \<Rightarrow> oid option
     \<Rightarrow> (exn + transaction) \<times> db" where
  "logTransaction up s userId ttype amount description reference referenceType metaTid =
     (if \<not> up
      then (Inl StorageError, s\<lparr>console := console s @ [''Error logging transaction:'']\<rparr>)
      else
        (case findOneTransaction s userId reference referenceType of
           Some existingTransaction \<Rightarrow>
             (Inr existingTransaction,
              s\<lparr>console := console s @ [''Transaction already exists:'']\<rparr>)
         | None \<Rightarrow>
             let t = \<lparr>txUserId = userId, txType = ttype, txAmount = amount,
                      txDescription = description, txReference = reference,
                      txReferenceType = referenceType, txStatus = ''completed'',
                      txMetaTournamentId = metaTid\<rparr>
             in (case saveTransaction up s t of
                   Inl e \<Rightarrow>
                     (Inl e, s\<lparr>console := console s @ [''Error logging transaction:'']\<rparr>)
                 | Inr s' \<Rightarrow>
                     (Inr t, s'\<lparr>console := console s' @ [''Transaction logged:'']\<rparr>))))"



section \<open>Registration: the handler of POST /tournaments/:id/register\<close>

subsection \<open>String helpers\<close>

text \<open>
  \<open>String.prototype.trim\<close> removes white space and line terminators at both ends;
  among the characters below 256 these are code units 9--13, 32 and 160. The regular
  expression \<^verbatim>\<open>/^\d+$/\<close> accepts the non-empty strings of ASCII digits.
\<close>

definition isSpace :: "char \<Rightarrow> bool" where
  "isSpace c \<longleftrightarrow>
     c \<in> set [CHR 0x09, CHR 0x0A, CHR 0x0B, CHR 0x0C, CHR 0x0D, CHR 0x20, CHR 0xA0]"

definition trim :: "string \<Rightarrow> string" where
  "trim str = rev (dropWhile isSpace (rev (dropWhile isSpace str)))"

definition isDigit :: "char \<Rightarrow> bool" where
  "isDigit c \<longleftrightarrow> c \<in> set ''0123456789''"

definition digitsOnly :: "string \<Rightarrow> bool" where
  "digitsOnly str \<longleftrightarrow> str \<noteq> [] \<and> list_all isDigit str"

subsection \<open>The checks before any mutation\<close>

text \<open>Lines 958--968: status, capacity and membership, in the order of the source.\<close>

definition reserve :: "tournament \<Rightarrow> oid \<Rightarrow> failure option" where
  "reserve t userId =
     (if status t \<noteq> Upcoming then Some RegistrationClosed
      else if registeredPlayers t \<ge> maxSlots t then Some TournamentFull
      else if userId \<in> set (registeredUsers t) then Some AlreadyRegistered
      else None)"

definition requiresTeamSelection :: "tournament \<Rightarrow> bool" where
  "requiresTeamSelection t \<longleftrightarrow> teamSize t \<in> set [Some TwoVTwo, Some FourVFour, Some SixVSix]"

text \<open>
  Lines 970--988. \<open>freeFireId\<close> is \<open>None\<close> when the body has no such field (or
  null); an empty string is falsy as well. \<open>termsAccepted\<close> is tested for
  truthiness. A team selection is looked at only when the tournament requires one.
\<close>

definition validateBody ::
  "tournament \<Rightarrow> string option \<Rightarrow> jsval \<Rightarrow> string option \<Rightarrow> failure option" where
  "validateBody t freeFireId termsAccepted teamSelection =
     (case freeFireId of
        None \<Rightarrow> Some FreeFireIdRequired
      | Some ff \<Rightarrow>
          if ff = [] \<or> trim ff = [] then Some FreeFireIdRequired
          else if \<not> truthy termsAccepted then Some TermsNotAccepted
          else if \<not> digitsOnly (trim ff) then Some FreeFireIdNotNumeric
          else if requiresTeamSelection t \<and>
                  (teamSelection = None \<or> teamSelection = Some [] \<or>
                   teamSelection \<notin> set [Some ''team_a'', Some ''team_b''])
               then Some TeamSelectionRequired
          else None)"

subsection \<open>Persisting the registration record\<close>

text \<open>The validators of \<open>registrationSchema\<close>.\<close>

definition validRegistration :: "registration \<Rightarrow> bool" where
  "validRegistration r \<longleftrightarrow>
     regTournamentIdString r \<noteq> [] \<and>
     regFreeFireId r \<noteq> [] \<and>
     regPaymentMethod r \<in> set [''wallet'', ''direct''] \<and>
     regTeamSelection r \<in> set [Some ''team_a'', Some ''team_b'', None] \<and>
     (if regSnapTeamSize r \<in> set [Some TwoVTwo, Some FourVFour, Some SixVSix]
      then regTeamSelection r \<noteq> None else True)"

text \<open>
  The two unique indexes of the Registration collection: \<open>(userId, tournamentId)\<close>
  and \<open>(tournamentId, freeFireId)\<close>.
\<close>

definition regConflict :: "db \<Rightarrow> registration \<Rightarrow> bool" where
  "regConflict s r \<longleftrightarrow>
     list_ex (\<lambda>x. (regUserId x = regUserId r \<and> regTournamentId x = regTournamentId r) \<or>
                  (regTournamentId x = regTournamentId r \<and> regFreeFireId x = regFreeFireId r))
       (registrations s)"

definition saveRegistration :: "db \<Rightarrow> registration \<Rightarrow> exn + db" where
  "saveRegistration s r =
     (if \<not> validRegistration r then Inl ValidationError
      else if regConflict s r then Inl DuplicateKey
      else Inr (s\<lparr>registrations := registrations s @ [r]\<rparr>))"

subsection \<open>Replies\<close>

datatype awardError = AwardUserNotFound | FailedToLogTransaction

datatype awardResult =
    AwardFailed oid awardError
  | AwardOk oid rat rat rat

text \<open>
  The replies. \<open>Registered\<close> carries \<open>deductedFromDeposit\<close>, \<open>deductedFromWinning\<close>,
  \<open>newBalance\<close> and \<open>teamAssigned\<close>; the generated \<open>registrationId\<close> is left out.
  \<open>TransactionLogged\<close> carries the ledger entry and \<open>newBalance\<close>;
  \<open>WinningsProcessed\<close> the tournament id and the per-winner results.
\<close>

datatype response =
    Reject failure
  | Registered rat rat rat "string option"
  | TransactionLogged transaction rat
  | WinningsProcessed oid "awardResult list"

text \<open>
  The record built at lines 1053--1078 (the user snapshot, which no check reads, is
  left out).
\<close>

definition newRegistration ::
  "oid \<Rightarrow> oid \<Rightarrow> tournament \<Rightarrow> string \<Rightarrow> string option \<Rightarrow> registration" where
  "newRegistration userId tid t ff teamSelection =
     \<lparr>regUserId = userId, regTournamentId = tid,
      regTournamentIdString = tournamentId t,
      regFreeFireId = trim ff,
      regTermsAccepted = True,
      regTeamSelection = (if requiresTeamSelection t then teamSelection else None),
      regEntryFee = entryFee t,
      regPaymentMethod = ''wallet'',
      regSnapTeamSize = teamSize t\<rparr>"

text \<open>
  Lines 1031--1102, from \<open>user.save()\<close> on: the balance is stored, the entry fee is
  logged inside its own try/catch, the registration record is saved, the tournament's
  occupancy is updated and stored. An exception of \<open>registration.save()\<close> reaches the
  outer catch, which answers 400 for error code 11000 and 500 otherwise.
\<close>

definition commitRegistration ::
  "runtime \<Rightarrow> bool \<Rightarrow> db \<Rightarrow> oid \<Rightarrow> oid \<Rightarrow> tournament \<Rightarrow> user \<Rightarrow> string \<Rightarrow> string option
     \<Rightarrow> rat \<times> rat \<times> rat \<times> rat \<Rightarrow> response \<times> db" where
  "commitRegistration env up s userId tid t u ff teamSelection split =
     (case split of (deductedFromDeposit, deductedFromWinning, d', w') \<Rightarrow>
        let u' = u\<lparr>depositAmount := d', winningAmount := w'\<rparr>;
            s1 = s\<lparr>users := (users s)(userId \<mapsto> u')\<rparr>;
            s2 = (case logTransaction up s1 userId ''entry_fee'' (- entryFee t)
                         (''Entry fee for tournament: '' @ tournamentId t) tid
                         ''tournament_id'' (Some tid) of
                    (Inl e, sl) \<Rightarrow>
                      sl\<lparr>console := console sl @ [''Error logging entry fee transaction:'']\<rparr>
                  | (Inr tx, sl) \<Rightarrow> sl)
        in (case saveRegistration s2 (newRegistration userId tid t ff teamSelection) of
              Inl e \<Rightarrow>
                (Reject (if e = DuplicateKey then DuplicateRegistration else ServerError),
                 s2\<lparr>console := console s2 @ [''Tournament registration error:'']\<rparr>)
            | Inr s3 \<Rightarrow>
                (Registered deductedFromDeposit deductedFromWinning (jsAdd env d' w')
                   (if requiresTeamSelection t then teamSelection else None),
                 s3\<lparr>tournaments := (tournaments s3)(tid \<mapsto>
                       t\<lparr>registeredUsers := registeredUsers t @ [userId],
                         registeredPlayers := jsAdd env (registeredPlayers t) 1\<rparr>)\<rparr>)))"

text \<open>
  The handler (lines 949--1103). The body's fields are its parameters; \<open>userId\<close> is
  the authenticated \<open>req.user.userId\<close> and \<open>tid\<close> is \<open>req.params.id\<close>. Where
  \<open>validateBody\<close> returns \<open>None\<close> the Free Fire id is present, so \<open>the freeFireId\<close>
  is that string.
\<close>

definition register ::
  "runtime \<Rightarrow> bool \<Rightarrow> db \<Rightarrow> oid \<Rightarrow> oid \<Rightarrow> string option \<Rightarrow> jsval \<Rightarrow> string option
     \<Rightarrow> response \<times> db" where
  "register env up s userId tid freeFireId termsAccepted teamSelection =
     (case tournaments s tid of
        None \<Rightarrow> (Reject TournamentNotFound, s)
      | Some t \<Rightarrow>
          (case reserve t userId of
             Some e \<Rightarrow> (Reject e, s)
           | None \<Rightarrow>
               (case validateBody t freeFireId termsAccepted teamSelection of
                  Some e \<Rightarrow> (Reject e, s)
                | None \<Rightarrow>
                    (case users s userId of
                       None \<Rightarrow> (Reject UserNotFound, s)
                     | Some u \<Rightarrow>
                         (case deductFee env (depositAmount u) (winningAmount u)
                                 (entryFee t) of
                            Inl e \<Rightarrow> (Reject e, s)
                          | Inr split \<Rightarrow>
                              commitRegistration env up s userId tid t u (the freeFireId)
                                teamSelection split)))))"

section \<open>Manual transactions: the handler of POST /admin/transactions\<close>



section \<open>AwardCoordinator: the handler of POST /admin/award-winnings\<close>

record winner =
  userId :: oid
  amount :: rat
  position :: rat

text \<open>The reference of a winner's ledger entry (line 1528).\<close>

definition awardReference :: "runtime \<Rightarrow> oid \<Rightarrow> winner \<Rightarrow> string" where
  "awardReference env tid w = tid @ ''_'' @ userId w @ ''_'' @ showNumber env (position w)"

text \<open>The description of a winner's ledger entry (line 1527).\<close>

definition awardDescription :: "runtime \<Rightarrow> tournament \<Rightarrow> winner \<Rightarrow> string" where
  "awardDescription env t w =
     ''Tournament winnings - '' @ tournamentId t @ '' (Position '' @
       showNumber env (position w) @ '')''"

text \<open>
  One iteration of the loop at lines 1507--1547. \<open>User.findById\<close> (line 1511) and
  \<open>user.save()\<close> (line 1519) stand outside the iteration's try/catch, which wraps
  the ledger append only: an id that does not cast makes \<open>findById\<close> throw, and the
  exception leaves the loop (\<open>Inl\<close>). An id that casts and matches no user gives
  the user-not-found result.
\<close>

definition awardOne ::
  "runtime \<Rightarrow> bool \<Rightarrow> oid \<Rightarrow> tournament \<Rightarrow> db \<Rightarrow> winner \<Rightarrow> (exn + awardResult) \<times> db" where
  "awardOne env up tid t s w =
     (if \<not> isValidId env (userId w) then (Inl CastError, s)
      else
        (case users s (userId w) of
           None \<Rightarrow> (Inr (AwardFailed (userId w) AwardUserNotFound), s)
         | Some u \<Rightarrow>
             let u' = u\<lparr>winningAmount := jsAdd env (winningAmount u) (amount w)\<rparr>;
                 s1 = s\<lparr>users := (users s)(userId w \<mapsto> u')\<rparr>
             in (case logTransaction up s1 (userId w) ''winning'' (amount w)
                        (awardDescription env t w) (awardReference env tid w) ''tournament_id''
                        (Some tid) of
                   (Inl e, s2) \<Rightarrow>
                     (Inr (AwardFailed (userId w) FailedToLogTransaction),
                      s2\<lparr>console := console s2 @ [''Error logging winning transaction:'']\<rparr>)
                 | (Inr tx, s2) \<Rightarrow>
                     (Inr (AwardOk (userId w) (amount w) (winningAmount u')
                             (jsAdd env (depositAmount u') (winningAmount u'))), s2))))"

text \<open>
  The loop over the winners: the results are collected in order and the state is
  threaded through. A per-winner result, failure or success, does not end the loop;
  an exception does, and the state reached so far stays.
\<close>

fun awardLoop ::
  "runtime \<Rightarrow> bool \<Rightarrow> oid \<Rightarrow> tournament \<Rightarrow> db \<Rightarrow> winner list
     \<Rightarrow> (exn + awardResult list) \<times> db" where
  "awardLoop env up tid t s [] = (Inr [], s)"
| "awardLoop env up tid t s (w # ws) =
     (case awardOne env up tid t s w of
        (Inl e, s') \<Rightarrow> (Inl e, s')
      | (Inr r, s') \<Rightarrow>
          (case awardLoop env up tid t s' ws of
             (Inl e, s'') \<Rightarrow> (Inl e, s'')
           | (Inr rs, s'') \<Rightarrow> (Inr (r # rs), s'')))"

text \<open>
  The handler (lines 1481--1558). \<open>winners\<close> is a list, so the test
  \<open>Array.isArray(winners)\<close> is met by the type; an empty \<open>tournamentId\<close> is the
  falsy case of the input check. An exception of \<open>Tournament.findById\<close> or of the
  loop reaches the outer catch, which writes to the console and answers 500.
\<close>

definition awardWinnings ::
  "runtime \<Rightarrow> bool \<Rightarrow> db \<Rightarrow> string \<Rightarrow> oid \<Rightarrow> winner list \<Rightarrow> response \<times> db" where
  "awardWinnings env up s role tid winners =
     (if role \<noteq> ''admin'' then (Reject AdminRequired, s)
      else if tid = [] then (Reject InvalidRequestData, s)
      else if \<not> isValidId env tid
        then (Reject ServerError, s\<lparr>console := console s @ [''Error awarding winnings:'']\<rparr>)
      else
        (case tournaments s tid of
           None \<Rightarrow> (Reject TournamentNotFound, s)
         | Some t \<Rightarrow>
             if status t \<noteq> Completed then (Reject TournamentNotCompleted, s)
             else (case awardLoop env up tid t s winners of
                     (Inl e, s') \<Rightarrow>
                       (Reject ServerError,
                        s'\<lparr>console := console s' @ [''Error awarding winnings:'']\<rparr>)
                   | (Inr results, s') \<Rightarrow> (WinningsProcessed tid results, s'))))"

section \<open>State predicates used by the theorems\<close>



section \<open>The input rule as the specification words it\<close>

text \<open>
  The specification's wording of the registration-input rule, kept apart from the
  handler's own check \<open>validateBody\<close> so that the two can be compared: the Free Fire
  id is present and is a positive integer literal (a digit string that is not zero), a
  team selection is supplied if and only if the tournament's team size is one of
  2v2, 4v4, 6v6, and the terms acceptance is the boolean \<open>true\<close>.
\<close>

definition specPositiveIntegerLiteral :: "string \<Rightarrow> bool" where
  "specPositiveIntegerLiteral str \<longleftrightarrow>
     str \<noteq> [] \<and> list_all isDigit str \<and> list_ex (\<lambda>c. c \<noteq> CHR ''0'') str"

definition specInputAcceptable ::
  "tournament \<Rightarrow> string option \<Rightarrow> jsval \<Rightarrow> string option \<Rightarrow> bool" where
  "specInputAcceptable t freeFireId termsAccepted teamSelection \<longleftrightarrow>
     (case freeFireId of None \<Rightarrow> False | Some ff \<Rightarrow> specPositiveIntegerLiteral ff) \<and>
     ((teamSelection \<noteq> None) = requiresTeamSelection t) \<and>
     termsAccepted = JBool True"

section \<open>The runtime of the examples\<close>

text \<open>
  The rounding of the language: a rational number is rounded to the nearest double,
  a tie to the double with the even mantissa. A double is \<open>m * 2^e\<close> with an
  integer \<open>m\<close> below \<open>2^53\<close> in magnitude and \<open>e \<ge> -1074\<close>. \<open>bits n\<close> is the
  length of the binary numeral of \<open>n\<close>, and \<open>floorLog2 x\<close>, for a positive \<open>x\<close>,
  is the integer \<open>k\<close> with \<open>2^k \<le> x < 2^(k+1)\<close>. Numbers beyond the largest double
  (which the language rounds to \<open>Infinity\<close>) are not in the examples.
\<close>

function bits :: "int \<Rightarrow> nat" where
  "bits n = (if n \<le> 0 then 0 else Suc (bits (n div 2)))"
  by pat_completeness auto

termination
  by (relation "measure nat") auto

declare bits.simps [simp del]

definition pow2 :: "int \<Rightarrow> rat" where
  "pow2 k = (if 0 \<le> k then 2 ^ nat k else 1 / 2 ^ nat (- k))"

definition floorLog2 :: "rat \<Rightarrow> int" where
  "floorLog2 x =
     (if 1 \<le> x then int (bits \<lfloor>x\<rfloor>) - 1
      else - int (bits (\<lceil>1 / x\<rceil> - 1)))"

definition roundHalfEven :: "rat \<Rightarrow> int" where
  "roundHalfEven x =
     (let f = \<lfloor>x\<rfloor>; r = x - of_int f
      in if r < 1 / 2 then f
         else if 1 / 2 < r then f + 1
         else if even f then f else f + 1)"

definition roundDouble :: "rat \<Rightarrow> rat" where
  "roundDouble x =
     (if x = 0 then 0
      else let e = max (floorLog2 \<bar>x\<bar> - 52) (- 1074)
           in sgn x * of_int (roundHalfEven (\<bar>x\<bar> / pow2 e)) * pow2 e)"

text \<open>
  The strings that every version of the driver casts to an ObjectId: 24 hexadecimal
  digits.
\<close>

definition isHexDigit :: "char \<Rightarrow> bool" where
  "isHexDigit c \<longleftrightarrow> c \<in> set ''0123456789abcdefABCDEF''"

definition hex24 :: "string \<Rightarrow> bool" where
  "hex24 str \<longleftrightarrow> length str = 24 \<and> list_all isHexDigit str"

text \<open>The rendering of a whole number below \<open>10^21\<close> in magnitude.\<close>

definition showWhole :: "rat \<Rightarrow> string" where
  "showWhole x = showInt \<lfloor>x\<rfloor>"

definition exRuntime :: runtime where
  "exRuntime = \<lparr>rnd = roundDouble, isValidId = hex24, showNumber = showWhole\<rparr>"

text \<open>The doubles that the literals \<open>0.02\<close>, \<open>0.03\<close> and \<open>0.05\<close> denote.\<close>

definition double002 :: rat where
  "double002 = roundDouble (2 / 100)"

definition double003 :: rat where
  "double003 = roundDouble (3 / 100)"

definition double005 :: rat where
  "double005 = roundDouble (5 / 100)"

section \<open>Example states\<close>

text \<open>
  A small database used to run the handlers: four users, five tournaments (a solo
  tournament with one seat taken, a solo tournament with a single seat, a completed
  tournament, a squad tournament and a solo tournament with the entry fee \<open>0.05\<close>)
  and the registration of the second user for the first tournament under the Free
  Fire id \<open>123\<close>. The fourth user holds \<open>0.02\<close> on the deposit account and
  \<open>0.03\<close> on the winning account.
\<close>

abbreviation idU1 :: oid where "idU1 \<equiv> ''65f0000000000000000000a1''"
abbreviation idU2 :: oid where "idU2 \<equiv> ''65f0000000000000000000a2''"
abbreviation idU3 :: oid where "idU3 \<equiv> ''65f0000000000000000000a3''"
abbreviation idU4 :: oid where "idU4 \<equiv> ''65f0000000000000000000a4''"
abbreviation idT1 :: oid where "idT1 \<equiv> ''65f0000000000000000000b1''"
abbreviation idT2 :: oid where "idT2 \<equiv> ''65f0000000000000000000b2''"
abbreviation idT3 :: oid where "idT3 \<equiv> ''65f0000000000000000000b3''"
abbreviation idT4 :: oid where "idT4 \<equiv> ''65f0000000000000000000b4''"
abbreviation idT5 :: oid where "idT5 \<equiv> ''65f0000000000000000000b5''"

text \<open>A well-formed id that no user has.\<close>

abbreviation idNobody :: oid where "idNobody \<equiv> ''65f0000000000000000000af''"

definition exUsers :: "oid \<rightharpoonup> user" where
  "exUsers =
     [idU1 \<mapsto> \<lparr>depositAmount = 30, winningAmount = 20\<rparr>,
      idU2 \<mapsto> \<lparr>depositAmount = 100, winningAmount = 0\<rparr>,
      idU3 \<mapsto> \<lparr>depositAmount = 5, winningAmount = 7\<rparr>,
      idU4 \<mapsto> \<lparr>depositAmount = double002, winningAmount = double003\<rparr>]"

definition exSolo :: tournament where
  "exSolo = \<lparr>tournamentId = ''FF-001'', teamSize = Some OneVsOne, entryFee = 40,
             maxSlots = 2, registeredPlayers = 1, status = Upcoming,
             registeredUsers = [idU2]\<rparr>"

definition exSingleSeat :: tournament where
  "exSingleSeat = \<lparr>tournamentId = ''FF-002'', teamSize = Some OneVsOne, entryFee = 10,
                   maxSlots = 1, registeredPlayers = 0, status = Upcoming,
                   registeredUsers = []\<rparr>"

definition exCompleted :: tournament where
  "exCompleted = \<lparr>tournamentId = ''FF-003'', teamSize = None, entryFee = 5,
                  maxSlots = 48, registeredPlayers = 2, status = Completed,
                  registeredUsers = [idU1, idU3]\<rparr>"

definition exSquad :: tournament where
  "exSquad = \<lparr>tournamentId = ''FF-004'', teamSize = Some FourVFour, entryFee = 0,
              maxSlots = 8, registeredPlayers = 0, status = Upcoming,
              registeredUsers = []\<rparr>"

definition exCents :: tournament where
  "exCents = \<lparr>tournamentId = ''FF-005'', teamSize = Some OneVsOne, entryFee = double005,
              maxSlots = 10, registeredPlayers = 0, status = Upcoming,
              registeredUsers = []\<rparr>"

definition exTournaments :: "oid \<rightharpoonup> tournament" where
  "exTournaments =
     [idT1 \<mapsto> exSolo, idT2 \<mapsto> exSingleSeat, idT3 \<mapsto> exCompleted, idT4 \<mapsto> exSquad,
      idT5 \<mapsto> exCents]"

definition exRegistration :: registration where
  "exRegistration =
     \<lparr>regUserId = idU2, regTournamentId = idT1, regTournamentIdString = ''FF-001'',
      regFreeFireId = ''123'', regTermsAccepted = True, regTeamSelection = None,
      regEntryFee = 40, regPaymentMethod = ''wallet'', regSnapTeamSize = Some OneVsOne\<rparr>"

definition exDb :: db where
  "exDb = \<lparr>users = exUsers, tournaments = exTournaments, transactions = [],
           registrations = [exRegistration], console = []\<rparr>"

text \<open>
  Three winners of the completed tournament; the second names a well-formed id that
  no user has.
\<close>

definition exWinners :: "winner list" where
  "exWinners =
     [\<lparr>userId = idU1, amount = 50, position = 1\<rparr>,
      \<lparr>userId = idNobody, amount = 30, position = 2\<rparr>,
      \<lparr>userId = idU3, amount = 10, position = 3\<rparr>]"

text \<open>
  The same batch with a second winner whose id is not an ObjectId (a string of five
  letters, which no version of the driver casts).
\<close>

definition exWinnersIllFormed :: "winner list" where
  "exWinnersIllFormed =
     [\<lparr>userId = idU1, amount = 50, position = 1\<rparr>,
      \<lparr>userId = ''ghost'', amount = 30, position = 2\<rparr>,
      \<lparr>userId = idU3, amount = 10, position = 3\<rparr>]"

section \<open>Auxiliary facts\<close>

lemmas ex_defs = exDb_def exUsers_def exTournaments_def exSolo_def exSingleSeat_def
  exCompleted_def exSquad_def exCents_def exRegistration_def

lemmas reg_defs = register_def reserve_def validateBody_def trim_def isSpace_def
  digitsOnly_def isDigit_def requiresTeamSelection_def deductFee_def commitRegistration_def
  logTransaction_def findOneTransaction_def saveTransaction_def validTransaction_def
  txKey_def saveRegistration_def validRegistration_def regConflict_def newRegistration_def
  jsAdd_def jsSub_def Let_def

subsection \<open>The rounding of the examples\<close>

lemma pow2_pos: "0 < pow2 k"
  by (simp add: pow2_def)

lemma roundHalfEven_nonneg: "0 \<le> x \<Longrightarrow> 0 \<le> roundHalfEven x"
  by (simp add: roundHalfEven_def Let_def)

lemma roundDouble_nonneg: "0 \<le> x \<Longrightarrow> 0 \<le> roundDouble x"
proof (cases "x = 0")
  case True
  then show ?thesis by (simp add: roundDouble_def)
next
  case False
  assume "0 \<le> x"
  with False have p: "0 < x" by simp
  let ?e = "max (floorLog2 \<bar>x\<bar> - 52) (- 1074)"
  have "0 \<le> \<bar>x\<bar> / pow2 ?e"
    using pow2_pos[of ?e] by simp
  then have "0 \<le> roundHalfEven (\<bar>x\<bar> / pow2 ?e)"
    by (rule roundHalfEven_nonneg)
  then have "(0::rat) \<le> of_int (roundHalfEven (\<bar>x\<bar> / pow2 ?e)) * pow2 ?e"
    using pow2_pos[of ?e] by simp
  with p False show ?thesis
    by (simp add: roundDouble_def Let_def)
qed


lemma exRuntime_simps:
  "rnd exRuntime = roundDouble" "isValidId exRuntime = hex24" "showNumber exRuntime = showWhole"
  by (simp_all add: exRuntime_def)

text \<open>The whole numbers of the examples are doubles: rounding returns them.\<close>

lemma roundDouble_whole:
  "roundDouble 0 = 0" "roundDouble 1 = 1" "roundDouble 2 = 2" "roundDouble 4 = 4"
  "roundDouble 6 = 6" "roundDouble 7 = 7" "roundDouble 10 = 10" "roundDouble 12 = 12"
  "roundDouble 17 = 17" "roundDouble 20 = 20" "roundDouble 22 = 22" "roundDouble 30 = 30"
  "roundDouble 40 = 40" "roundDouble 50 = 50" "roundDouble 70 = 70" "roundDouble 100 = 100"
  "roundDouble (- 1) = - 1"
  by code_simp+

text \<open>
  The doubles of \<open>0.02\<close>, \<open>0.03\<close> and \<open>0.05\<close>, and the results of the operations
  on them that the examples run.
\<close>

lemma double_values:
  "double002 = 5764607523034235 / 288230376151711744"
  "double003 = 8646911284551352 / 288230376151711744"
  "double005 = 14411518807585588 / 288230376151711744"
  by code_simp+

lemma double_nonneg: "0 \<le> double002" "0 \<le> double003" "0 \<le> double005"
  by (simp_all add: double002_def double003_def double005_def roundDouble_nonneg)

lemma double_sum: "roundDouble (double002 + double003) = double005"
  by code_simp

lemma double_difference:
  "roundDouble (double005 - double002) = 8646911284551353 / 288230376151711744"
  by code_simp

lemma double_remainder:
  "roundDouble (double003 - roundDouble (double005 - double002)) = - 1 / 288230376151711744"
  by code_simp

subsection \<open>The registration handler\<close>

lemma deductFee_insufficient:
  "jsAdd env d w < fee \<Longrightarrow> deductFee env d w fee = Inl (InsufficientBalance fee (jsAdd env d w))"
  by (simp add: deductFee_def)

lemma deductFee_from_deposit:
  "fee \<le> jsAdd env d w \<Longrightarrow> fee \<le> d \<Longrightarrow>
     deductFee env d w fee = Inr (fee, 0, jsSub env d fee, w)"
  by (simp add: deductFee_def)

lemma deductFee_from_both:
  "fee \<le> jsAdd env d w \<Longrightarrow> d < fee \<Longrightarrow> 0 < jsSub env fee d \<Longrightarrow> jsSub env fee d \<le> w \<Longrightarrow>
     deductFee env d w fee =
       Inr (d, jsSub env fee d, 0, jsSub env w (jsSub env fee d))"
  by (simp add: deductFee_def)

lemma deductFee_calculation_error:
  "fee \<le> jsAdd env d w \<Longrightarrow> d < fee \<Longrightarrow> 0 < jsSub env fee d \<Longrightarrow> w < jsSub env fee d \<Longrightarrow>
     deductFee env d w fee = Inl BalanceCalculationError"
  by (simp add: deductFee_def)

lemma logTransaction_frame:
  "users (snd (logTransaction up s uid ty a de r rt m)) = users s \<and>
   tournaments (snd (logTransaction up s uid ty a de r rt m)) = tournaments s \<and>
   registrations (snd (logTransaction up s uid ty a de r rt m)) = registrations s"
  by (simp add: logTransaction_def saveTransaction_def Let_def split: option.splits)

lemma validateBody_valid:
  assumes "validateBody t (Some ff) ta ts = None" and "tournamentId t \<noteq> []"
  shows "validRegistration (newRegistration uid tid t ff ts)"
  using assms
  by (auto simp: validateBody_def validRegistration_def newRegistration_def
      requiresTeamSelection_def split: if_splits)

lemma commit_conflict:
  assumes "validRegistration (newRegistration uid tid t ff ts)"
      and "regConflict s (newRegistration uid tid t ff ts)"
  shows "fst (commitRegistration env up s uid tid t u ff ts (a, b, d', w')) =
           Reject DuplicateRegistration \<and>
         registrations (snd (commitRegistration env up s uid tid t u ff ts (a, b, d', w'))) =
           registrations s \<and>
         tournaments (snd (commitRegistration env up s uid tid t u ff ts (a, b, d', w'))) =
           tournaments s \<and>
         users (snd (commitRegistration env up s uid tid t u ff ts (a, b, d', w'))) =
           (users s)(uid \<mapsto> u\<lparr>depositAmount := d', winningAmount := w'\<rparr>)"
proof -
  let ?s1 = "s\<lparr>users := (users s)(uid \<mapsto> u\<lparr>depositAmount := d', winningAmount := w'\<rparr>)\<rparr>"
  let ?lt = "logTransaction up ?s1 uid ''entry_fee'' (- entryFee t)
               (''Entry fee for tournament: '' @ tournamentId t) tid ''tournament_id'' (Some tid)"
  obtain res sl where lt: "?lt = (res, sl)" by (cases ?lt)
  have fr: "users sl = users ?s1" "tournaments sl = tournaments ?s1"
    "registrations sl = registrations ?s1"
    using logTransaction_frame[of up ?s1 uid "''entry_fee''" "- entryFee t"
        "''Entry fee for tournament: '' @ tournamentId t" tid "''tournament_id''" "Some tid"] lt
    by simp_all
  show ?thesis
    using assms lt fr
    by (cases res) (simp_all add: commitRegistration_def Let_def saveRegistration_def regConflict_def)
qed

lemma commit_ok:
  assumes "validRegistration (newRegistration uid tid t ff ts)"
      and "\<not> regConflict s (newRegistration uid tid t ff ts)"
  shows "fst (commitRegistration env up s uid tid t u ff ts (a, b, d', w')) =
           Registered a b (jsAdd env d' w') (if requiresTeamSelection t then ts else None) \<and>
         registrations (snd (commitRegistration env up s uid tid t u ff ts (a, b, d', w'))) =
           registrations s @ [newRegistration uid tid t ff ts] \<and>
         tournaments (snd (commitRegistration env up s uid tid t u ff ts (a, b, d', w'))) =
           (tournaments s)(tid \<mapsto> t\<lparr>registeredUsers := registeredUsers t @ [uid],
                                    registeredPlayers := jsAdd env (registeredPlayers t) 1\<rparr>) \<and>
         users (snd (commitRegistration env up s uid tid t u ff ts (a, b, d', w'))) =
           (users s)(uid \<mapsto> u\<lparr>depositAmount := d', winningAmount := w'\<rparr>)"
proof -
  let ?s1 = "s\<lparr>users := (users s)(uid \<mapsto> u\<lparr>depositAmount := d', winningAmount := w'\<rparr>)\<rparr>"
  let ?lt = "logTransaction up ?s1 uid ''entry_fee'' (- entryFee t)
               (''Entry fee for tournament: '' @ tournamentId t) tid ''tournament_id'' (Some tid)"
  obtain res sl where lt: "?lt = (res, sl)" by (cases ?lt)
  have fr: "users sl = users ?s1" "tournaments sl = tournaments ?s1"
    "registrations sl = registrations ?s1"
    using logTransaction_frame[of up ?s1 uid "''entry_fee''" "- entryFee t"
        "''Entry fee for tournament: '' @ tournamentId t" tid "''tournament_id''" "Some tid"] lt
    by simp_all
  show ?thesis
    using assms lt fr
    by (cases res) (simp_all add: commitRegistration_def Let_def saveRegistration_def regConflict_def)
qed

lemma register_reaches_commit:
  assumes "tournaments s tid = Some t" and "reserve t uid = None"
      and "validateBody t (Some ff) ta ts = None" and "users s uid = Some u"
      and "deductFee env (depositAmount u) (winningAmount u) (entryFee t) = Inr sp"
  shows "register env up s uid tid (Some ff) ta ts =
           commitRegistration env up s uid tid t u ff ts sp"
  using assms by (simp add: register_def)

lemma register_failed_deduction:
  assumes "tournaments s tid = Some t" and "reserve t uid = None"
      and "validateBody t ffo ta ts = None" and "users s uid = Some u"
      and "deductFee env (depositAmount u) (winningAmount u) (entryFee t) = Inl e"
  shows "register env up s uid tid ffo ta ts = (Reject e, s)"
  using assms by (simp add: register_def)







lemma commit_rejects:
  assumes "\<not> validRegistration (newRegistration uid tid t ff ts) \<or>
           regConflict s (newRegistration uid tid t ff ts)"
  shows "\<exists>e. fst (commitRegistration env up s uid tid t u ff ts (a, b, d', w')) = Reject e"
proof -
  let ?s1 = "s\<lparr>users := (users s)(uid \<mapsto> u\<lparr>depositAmount := d', winningAmount := w'\<rparr>)\<rparr>"
  let ?lt = "logTransaction up ?s1 uid ''entry_fee'' (- entryFee t)
               (''Entry fee for tournament: '' @ tournamentId t) tid ''tournament_id'' (Some tid)"
  obtain res sl where lt: "?lt = (res, sl)" by (cases ?lt)
  have fr: "registrations sl = registrations ?s1"
    using logTransaction_frame[of up ?s1 uid "''entry_fee''" "- entryFee t"
        "''Entry fee for tournament: '' @ tournamentId t" tid "''tournament_id''" "Some tid"] lt
    by simp
  show ?thesis
    using assms lt fr
    by (cases res) (auto simp: commitRegistration_def Let_def saveRegistration_def regConflict_def)
qed

lemma register_success:
  assumes "register env up s uid tid ffo ta ts = (Registered a b c team, s1)"
  shows "\<exists>t ff u. tournaments s tid = Some t \<and> ffo = Some ff \<and> reserve t uid = None \<and>
           validateBody t ffo ta ts = None \<and> users s uid = Some u \<and>
           team = (if requiresTeamSelection t then ts else None) \<and>
           registrations s1 = registrations s @ [newRegistration uid tid t ff ts] \<and>
           tournaments s1 = (tournaments s)(tid \<mapsto>
               t\<lparr>registeredUsers := registeredUsers t @ [uid],
                 registeredPlayers := jsAdd env (registeredPlayers t) 1\<rparr>)"
proof -
  from assms obtain t where t: "tournaments s tid = Some t"
    by (auto simp: register_def split: option.splits)
  from assms t have r: "reserve t uid = None"
    by (auto simp: register_def split: option.splits)
  from assms t r have v: "validateBody t ffo ta ts = None"
    by (auto simp: register_def split: option.splits)
  then obtain ff where ff: "ffo = Some ff"
    by (cases ffo) (simp_all add: validateBody_def)
  from assms t r v obtain u where u: "users s uid = Some u"
    by (auto simp: register_def split: option.splits)
  from assms t r v u obtain x y d' w' where
    c: "commitRegistration env up s uid tid t u ff ts (x, y, d', w') = (Registered a b c team, s1)"
    by (auto simp: register_def ff split: sum.splits)
  have ok: "validRegistration (newRegistration uid tid t ff ts)"
           "\<not> regConflict s (newRegistration uid tid t ff ts)"
    using commit_rejects[of uid tid t ff ts s env up u x y d' w'] c by auto
  from commit_ok[OF ok, of env up u x y d' w'] c t r v u ff show ?thesis by simp
qed

lemma commit_ledger_down:
  assumes "validRegistration (newRegistration uid tid t ff ts)"
      and "\<not> regConflict s (newRegistration uid tid t ff ts)"
  shows "transactions (snd (commitRegistration env False s uid tid t u ff ts (a, b, d', w'))) =
           transactions s \<and>
         console (snd (commitRegistration env False s uid tid t u ff ts (a, b, d', w'))) =
           console s @ [''Error logging transaction:'', ''Error logging entry fee transaction:'']"
  using assms
  by (simp add: commitRegistration_def logTransaction_def Let_def saveRegistration_def
      regConflict_def)

lemma register_rejects_invalid:
  assumes "tournaments s tid = Some t" and "validateBody t ffo ta ts \<noteq> None"
  shows "\<exists>e. register env up s uid tid ffo ta ts = (Reject e, s)"
  using assms by (auto simp: register_def split: option.splits)

lemma trim_Nil: "trim [] = []"
  by (simp add: trim_def)

lemma validateBody_None_iff:
  "validateBody t ffo ta ts = None \<longleftrightarrow>
     (\<exists>ff. ffo = Some ff \<and> digitsOnly (trim ff)) \<and> truthy ta \<and>
     (requiresTeamSelection t \<longrightarrow> ts = Some ''team_a'' \<or> ts = Some ''team_b'')"
  by (cases ffo) (auto simp: validateBody_def digitsOnly_def trim_Nil)


section \<open>C2: the deduction split\<close>

text \<open>
  The handler decides twice whether the balance covers the fee: it compares the fee
  with the rounded sum of the two balances (line 997), and then the winning balance
  with the rounded difference of the fee and the deposit balance (line 1019). On
  doubles the two comparisons can disagree. The lemmas \<open>deductFee_insufficient\<close>,
  \<open>deductFee_from_deposit\<close>, \<open>deductFee_from_both\<close> and
  \<open>deductFee_calculation_error\<close> above give the result of the deduction for every
  outcome of the comparisons.
\<close>

text \<open>
  Where the four operations of the deduction are exact (as they are on whole amounts
  below \<open>2^53\<close>), a total that covers the fee gives the split of the claim.
\<close>

lemma deductFee_exact:
  assumes "rnd env (d + w) = d + w" and "rnd env (d - fee) = d - fee"
      and "rnd env (fee - d) = fee - d" and "rnd env (w - (fee - d)) = w - (fee - d)"
      and "fee \<le> d + w"
  shows "deductFee env d w fee =
           Inr (min d fee, fee - min d fee, d - min d fee, w - (fee - min d fee))"
proof (cases "fee \<le> d")
  case True
  then show ?thesis
    using assms by (simp add: deductFee_def jsAdd_def jsSub_def min_def)
next
  case False
  then have "0 < fee - d" and "fee - d \<le> w" using assms(5) by simp_all
  with False show ?thesis
    using assms by (simp add: deductFee_def jsAdd_def jsSub_def min_def)
qed

text \<open>
  Claim C2 fails on the code. A user holds \<open>0.02\<close> on the deposit account and
  \<open>0.03\<close> on the winning account (both non-negative) and registers for a
  tournament with the entry fee \<open>0.05\<close>. The total the handler computes is
  \<open>0.05\<close>, which is not less than the fee, so the call is not refused for an
  insufficient balance. The remainder after the deposit account is
  \<open>0.05 - 0.02 = 0.030000000000000002\<close>, which is more than the winning balance:
  the deduction yields no split but the balance-calculation error, which the
  handler answers with status 400, and the state is unchanged. The comment at line
  1026 of the source says of this branch that it cannot be reached after the check of
  the total.
\<close>

theorem deduction_split_rounding:
  "0 \<le> double002 \<and> 0 \<le> double003 \<and> 0 \<le> double005 \<and>
   users exDb idU4 = Some \<lparr>depositAmount = double002, winningAmount = double003\<rparr> \<and>
   tournaments exDb idT5 = Some exCents \<and> entryFee exCents = double005 \<and>
   jsAdd exRuntime double002 double003 = double005 \<and>
   jsSub exRuntime double005 double002 = 8646911284551353 / 288230376151711744 \<and>
   double003 = 8646911284551352 / 288230376151711744 \<and>
   deductFee exRuntime double002 double003 double005 = Inl BalanceCalculationError \<and>
   register exRuntime True exDb idU4 idT5 (Some ''456'') (JBool True) None =
     (Reject BalanceCalculationError, exDb) \<and>
   httpStatus BalanceCalculationError = 400"
proof -
  have u: "users exDb idU4 = Some \<lparr>depositAmount = double002, winningAmount = double003\<rparr>"
    by (simp add: ex_defs)
  have t: "tournaments exDb idT5 = Some exCents" by (simp add: ex_defs)
  have f: "entryFee exCents = double005" by (simp add: ex_defs)
  have a: "jsAdd exRuntime double002 double003 = double005"
    by (simp add: jsAdd_def exRuntime_simps double_sum)
  have b: "jsSub exRuntime double005 double002 = 8646911284551353 / 288230376151711744"
    by (simp add: jsSub_def exRuntime_simps double_difference)
  have lt: "double002 < double005" by (simp add: double_values)
  have d: "deductFee exRuntime double002 double003 double005 = Inl BalanceCalculationError"
    by (rule deductFee_calculation_error) (simp_all add: a b lt, simp add: double_values)
  have r: "reserve exCents idU4 = None" by (simp add: ex_defs reserve_def)
  have v: "validateBody exCents (Some ''456'') (JBool True) None = None"
    by (simp add: ex_defs reg_defs)
  have g: "register exRuntime True exDb idU4 idT5 (Some ''456'') (JBool True) None =
             (Reject BalanceCalculationError, exDb)"
    using t r v u by (rule register_failed_deduction) (simp add: f d)
  show ?thesis
    using double_nonneg u t f a b double_values(2) d g by (simp only: httpStatus.simps simp_thms)
qed

section \<open>C3: idempotence of the ledger append\<close>



section \<open>C1: a failed registration after the deduction\<close>

text \<open>
  Claim C1, as amended. When a registration call has passed every check and deducted
  the fee, and persisting the Registration record is refused by a unique index, the
  call answers with the already-registered failure, creates no registration record and
  leaves the tournaments unchanged; the user's stored balances are the deducted ones
  (the new deposit and winning balance that the deduction computed): nothing restores
  them.
\<close>

theorem register_conflict_keeps_deduction:
  assumes "tournaments s tid = Some t" and "tournamentId t \<noteq> []"
      and "reserve t uid = None"
      and "validateBody t (Some ff) ta ts = None"
      and "users s uid = Some u"
      and "deductFee env (depositAmount u) (winningAmount u) (entryFee t) = Inr (a, b, d', w')"
      and "regConflict s (newRegistration uid tid t ff ts)"
  shows "fst (register env up s uid tid (Some ff) ta ts) = Reject DuplicateRegistration \<and>
         registrations (snd (register env up s uid tid (Some ff) ta ts)) = registrations s \<and>
         tournaments (snd (register env up s uid tid (Some ff) ta ts)) = tournaments s \<and>
         users (snd (register env up s uid tid (Some ff) ta ts)) uid =
           Some (u\<lparr>depositAmount := d', winningAmount := w'\<rparr>)"
proof -
  have v: "validRegistration (newRegistration uid tid t ff ts)"
    using assms(4,2) by (rule validateBody_valid)
  show ?thesis
    unfolding register_reaches_commit[OF assms(1,3,4,5,6)]
    using commit_conflict[OF v assms(7)] by simp
qed

theorem register_conflict_keeps_deduction_witness:
  "tournaments exDb idT1 = Some exSolo \<and> tournamentId exSolo \<noteq> [] \<and>
   reserve exSolo idU1 = None \<and>
   validateBody exSolo (Some ''123'') (JBool True) None = None \<and>
   users exDb idU1 = Some \<lparr>depositAmount = 30, winningAmount = 20\<rparr> \<and>
   deductFee exRuntime 30 20 (entryFee exSolo) = Inr (30, 10, 0, 10) \<and>
   regConflict exDb (newRegistration idU1 idT1 exSolo ''123'' None) \<and>
   fst (register exRuntime False exDb idU1 idT1 (Some ''123'') (JBool True) None) =
     Reject DuplicateRegistration \<and>
   users (snd (register exRuntime False exDb idU1 idT1 (Some ''123'') (JBool True) None)) idU1 =
     Some \<lparr>depositAmount = 0, winningAmount = 10\<rparr>"
proof -
  let ?u = "\<lparr>depositAmount = 30, winningAmount = 20\<rparr>"
  have h1: "tournaments exDb idT1 = Some exSolo" by (simp add: ex_defs)
  have h2: "tournamentId exSolo \<noteq> []" by (simp add: ex_defs)
  have h3: "reserve exSolo idU1 = None" by (simp add: ex_defs reserve_def)
  have h4: "validateBody exSolo (Some ''123'') (JBool True) None = None"
    by (simp add: ex_defs reg_defs)
  have h5: "users exDb idU1 = Some ?u"
    by (simp add: ex_defs)
  have h6': "deductFee exRuntime 30 20 (entryFee exSolo) = Inr (30, 10, 0, 10)"
    by (simp add: ex_defs reg_defs exRuntime_simps roundDouble_whole)
  then have h6: "deductFee exRuntime (depositAmount ?u) (winningAmount ?u) (entryFee exSolo) =
      Inr (30, 10, 0, 10)"
    by simp
  have h7: "regConflict exDb (newRegistration idU1 idT1 exSolo ''123'' None)"
    by (simp add: ex_defs reg_defs)
  show ?thesis
    using register_conflict_keeps_deduction[OF h1 h2 h3 h4 h5 h6 h7, of False] h1 h2 h3 h4 h5 h6' h7
    by simp
qed

text \<open>
  The claim as stated (the balances are restored to their values before the call)
  fails: the first user holds 30 and 20, registers for the first tournament under the
  Free Fire id that the second user registered there, is refused, and holds 0 and 10
  afterwards.
\<close>

theorem register_rollback_counterexample:
  "users exDb idU1 = Some \<lparr>depositAmount = 30, winningAmount = 20\<rparr> \<and>
   fst (register exRuntime True exDb idU1 idT1 (Some ''123'') (JBool True) None) =
     Reject DuplicateRegistration \<and>
   users (snd (register exRuntime True exDb idU1 idT1 (Some ''123'') (JBool True) None)) idU1 =
     Some \<lparr>depositAmount = 0, winningAmount = 10\<rparr> \<and>
   registrations (snd (register exRuntime True exDb idU1 idT1 (Some ''123'') (JBool True) None)) =
     registrations exDb"
  by (simp add: ex_defs reg_defs exRuntime_simps roundDouble_whole)

section \<open>C4: rejections of the capacity guard\<close>

text \<open>
  Claim C4, as amended. The three checks are applied in the order of the source and
  the first that applies decides the reply: registration-closed when the status is not
  upcoming; otherwise tournament-full when \<open>registeredPlayers \<ge> maxSlots\<close>; otherwise
  already-registered when the user is in \<open>registeredUsers\<close>. Each of these rejections
  returns the state unchanged (no deduction, no ledger entry, no registration
  record). A user whose registration succeeded and who registers again for the same
  tournament is rejected with the state unchanged: with tournament-full when that
  registration took the last seat (the incremented \<open>registeredPlayers\<close> has reached
  \<open>maxSlots\<close>), with already-registered otherwise.
\<close>

theorem reserve_rejections:
  assumes "tournaments s tid = Some t"
  shows "(status t \<noteq> Upcoming \<longrightarrow>
            register env up s uid tid ffo ta ts = (Reject RegistrationClosed, s)) \<and>
         (status t = Upcoming \<and> maxSlots t \<le> registeredPlayers t \<longrightarrow>
            register env up s uid tid ffo ta ts = (Reject TournamentFull, s)) \<and>
         (status t = Upcoming \<and> registeredPlayers t < maxSlots t \<and>
          uid \<in> set (registeredUsers t) \<longrightarrow>
            register env up s uid tid ffo ta ts = (Reject AlreadyRegistered, s)) \<and>
         (register env up s uid tid ffo ta ts = (Registered a b c team, s1) \<longrightarrow>
            (maxSlots t \<le> jsAdd env (registeredPlayers t) 1 \<longrightarrow>
               register env up' s1 uid tid ffo' ta' ts' = (Reject TournamentFull, s1)) \<and>
            (jsAdd env (registeredPlayers t) 1 < maxSlots t \<longrightarrow>
               register env up' s1 uid tid ffo' ta' ts' = (Reject AlreadyRegistered, s1)))"
proof (intro conjI impI)
  assume "status t \<noteq> Upcoming"
  then show "register env up s uid tid ffo ta ts = (Reject RegistrationClosed, s)"
    using assms by (simp add: register_def reserve_def)
next
  assume "status t = Upcoming \<and> maxSlots t \<le> registeredPlayers t"
  then show "register env up s uid tid ffo ta ts = (Reject TournamentFull, s)"
    using assms by (simp add: register_def reserve_def)
next
  assume "status t = Upcoming \<and> registeredPlayers t < maxSlots t \<and>
          uid \<in> set (registeredUsers t)"
  then show "register env up s uid tid ffo ta ts = (Reject AlreadyRegistered, s)"
    using assms by (simp add: register_def reserve_def)
next
  assume ok: "register env up s uid tid ffo ta ts = (Registered a b c team, s1)"
    and full: "maxSlots t \<le> jsAdd env (registeredPlayers t) 1"
  let ?t' = "t\<lparr>registeredUsers := registeredUsers t @ [uid],
               registeredPlayers := jsAdd env (registeredPlayers t) 1\<rparr>"
  from register_success[OF ok] assms
  have r: "reserve t uid = None" and t': "tournaments s1 tid = Some ?t'"
    by auto
  from r have "status t = Upcoming" by (simp add: reserve_def split: if_splits)
  with full have "reserve ?t' uid = Some TournamentFull"
    by (simp add: reserve_def)
  with t' show "register env up' s1 uid tid ffo' ta' ts' = (Reject TournamentFull, s1)"
    by (simp add: register_def)
next
  assume ok: "register env up s uid tid ffo ta ts = (Registered a b c team, s1)"
    and free: "jsAdd env (registeredPlayers t) 1 < maxSlots t"
  let ?t' = "t\<lparr>registeredUsers := registeredUsers t @ [uid],
               registeredPlayers := jsAdd env (registeredPlayers t) 1\<rparr>"
  from register_success[OF ok] assms
  have r: "reserve t uid = None" and t': "tournaments s1 tid = Some ?t'"
    by auto
  from r have "status t = Upcoming" by (simp add: reserve_def split: if_splits)
  with free have "reserve ?t' uid = Some AlreadyRegistered"
    by (simp add: reserve_def)
  with t' show "register env up' s1 uid tid ffo' ta' ts' = (Reject AlreadyRegistered, s1)"
    by (simp add: register_def)
qed

theorem reserve_rejections_witness:
  "tournaments exDb idT3 = Some exCompleted \<and> status exCompleted \<noteq> Upcoming \<and>
   register exRuntime True exDb idU1 idT3 (Some ''777'') (JBool True) None =
     (Reject RegistrationClosed, exDb) \<and>
   tournaments exDb idT1 = Some exSolo \<and>
   register exRuntime True exDb idU2 idT1 (Some ''777'') (JBool True) None =
     (Reject AlreadyRegistered, exDb) \<and>
   tournaments exDb idT2 = Some exSingleSeat \<and>
   register exRuntime True exDb idU1 idT2 (Some ''777'') (JBool True) None =
     (Registered 10 0 40 None,
      snd (register exRuntime True exDb idU1 idT2 (Some ''777'') (JBool True) None)) \<and>
   maxSlots exSingleSeat \<le> jsAdd exRuntime (registeredPlayers exSingleSeat) 1 \<and>
   register exRuntime True
       (snd (register exRuntime True exDb idU1 idT2 (Some ''777'') (JBool True) None))
       idU1 idT2 (Some ''777'') (JBool True) None =
     (Reject TournamentFull,
      snd (register exRuntime True exDb idU1 idT2 (Some ''777'') (JBool True) None)) \<and>
   tournaments exDb idT4 = Some exSquad \<and>
   register exRuntime True exDb idU1 idT4 (Some ''777'') (JBool True) (Some ''team_a'') =
     (Registered 0 0 50 (Some ''team_a''),
      snd (register exRuntime True exDb idU1 idT4 (Some ''777'') (JBool True)
             (Some ''team_a''))) \<and>
   jsAdd exRuntime (registeredPlayers exSquad) 1 < maxSlots exSquad \<and>
   register exRuntime True
       (snd (register exRuntime True exDb idU1 idT4 (Some ''777'') (JBool True)
               (Some ''team_a'')))
       idU1 idT4 (Some ''777'') (JBool True) (Some ''team_a'') =
     (Reject AlreadyRegistered,
      snd (register exRuntime True exDb idU1 idT4 (Some ''777'') (JBool True)
             (Some ''team_a'')))"
proof -
  let ?c = "register exRuntime True exDb idU1 idT2 (Some ''777'') (JBool True) None"
  let ?d = "register exRuntime True exDb idU1 idT4 (Some ''777'') (JBool True) (Some ''team_a'')"
  have g1: "tournaments exDb idT3 = Some exCompleted" by (simp add: ex_defs)
  have g2: "status exCompleted \<noteq> Upcoming" by (simp add: ex_defs)
  have closed: "register exRuntime True exDb idU1 idT3 (Some ''777'') (JBool True) None =
      (Reject RegistrationClosed, exDb)"
    using conjunct1[OF reserve_rejections[OF g1]] g2 by (rule mp)
  have k1: "tournaments exDb idT1 = Some exSolo" by (simp add: ex_defs)
  have k2: "status exSolo = Upcoming \<and> registeredPlayers exSolo < maxSlots exSolo \<and>
             idU2 \<in> set (registeredUsers exSolo)"
    by (simp add: ex_defs)
  have already: "register exRuntime True exDb idU2 idT1 (Some ''777'') (JBool True) None =
      (Reject AlreadyRegistered, exDb)"
    using conjunct1[OF conjunct2[OF conjunct2[OF reserve_rejections[OF k1]]]] k2 by (rule mp)
  have h1: "tournaments exDb idT2 = Some exSingleSeat" by (simp add: ex_defs)
  have f: "fst ?c = Registered 10 0 40 None"
    by (simp add: ex_defs reg_defs exRuntime_simps roundDouble_whole)
  then have h2: "?c = (Registered 10 0 40 None, snd ?c)" by (simp add: prod_eq_iff)
  have h3: "maxSlots exSingleSeat \<le> jsAdd exRuntime (registeredPlayers exSingleSeat) 1"
    by (simp add: ex_defs jsAdd_def exRuntime_simps roundDouble_whole)
  note T = conjunct2[OF conjunct2[OF conjunct2[OF
      reserve_rejections[OF h1, where env = exRuntime and up = True and uid = idU1
        and ffo = "Some ''777''" and ta = "JBool True" and ts = None
        and a = 10 and b = 0 and c = 40 and team = None and ?s1.0 = "snd ?c"
        and up' = True and ffo' = "Some ''777''" and ta' = "JBool True" and ts' = None]]]]
  have T1: "maxSlots exSingleSeat \<le> jsAdd exRuntime (registeredPlayers exSingleSeat) 1 \<longrightarrow>
      register exRuntime True (snd ?c) idU1 idT2 (Some ''777'') (JBool True) None =
        (Reject TournamentFull, snd ?c)"
    using conjunct1[OF mp[OF T h2]] .
  have full: "register exRuntime True (snd ?c) idU1 idT2 (Some ''777'') (JBool True) None =
        (Reject TournamentFull, snd ?c)"
    using T1 h3 by (rule mp)
  have m1: "tournaments exDb idT4 = Some exSquad" by (simp add: ex_defs)
  have f': "fst ?d = Registered 0 0 50 (Some ''team_a'')"
    by (simp add: ex_defs reg_defs exRuntime_simps roundDouble_whole)
  then have m2: "?d = (Registered 0 0 50 (Some ''team_a''), snd ?d)" by (simp add: prod_eq_iff)
  have m3: "jsAdd exRuntime (registeredPlayers exSquad) 1 < maxSlots exSquad"
    by (simp add: ex_defs jsAdd_def exRuntime_simps roundDouble_whole)
  note U = conjunct2[OF conjunct2[OF conjunct2[OF
      reserve_rejections[OF m1, where env = exRuntime and up = True and uid = idU1
        and ffo = "Some ''777''" and ta = "JBool True" and ts = "Some ''team_a''"
        and a = 0 and b = 0 and c = 50 and team = "Some ''team_a''" and ?s1.0 = "snd ?d"
        and up' = True and ffo' = "Some ''777''" and ta' = "JBool True"
        and ts' = "Some ''team_a''"]]]]
  have U1: "jsAdd exRuntime (registeredPlayers exSquad) 1 < maxSlots exSquad \<longrightarrow>
      register exRuntime True (snd ?d) idU1 idT4 (Some ''777'') (JBool True) (Some ''team_a'') =
        (Reject AlreadyRegistered, snd ?d)"
    using conjunct2[OF mp[OF U m2]] .
  have again: "register exRuntime True (snd ?d) idU1 idT4 (Some ''777'') (JBool True)
        (Some ''team_a'') = (Reject AlreadyRegistered, snd ?d)"
    using U1 m3 by (rule mp)
  show ?thesis using g1 g2 closed k1 already h1 h2 h3 full m1 m2 m3 again by (intro conjI)
qed

text \<open>
  The claim as stated (already-registered whenever the user is in the registered-user
  set, so in particular on a second call after a successful one) fails when the first
  registration took the last seat: the first user registers for the single-seat
  tournament and registers again; the second reply is tournament-full.
\<close>

theorem reregistration_counterexample:
  "fst (register exRuntime True exDb idU1 idT2 (Some ''777'') (JBool True) None) =
     Registered 10 0 40 None \<and>
   fst (register exRuntime True
          (snd (register exRuntime True exDb idU1 idT2 (Some ''777'') (JBool True) None))
          idU1 idT2 (Some ''777'') (JBool True) None) = Reject TournamentFull \<and>
   fst (register exRuntime True
          (snd (register exRuntime True exDb idU1 idT2 (Some ''777'') (JBool True) None))
          idU1 idT2 (Some ''777'') (JBool True) None) \<noteq> Reject AlreadyRegistered"
  by (simp add: ex_defs reg_defs exRuntime_simps roundDouble_whole)

section \<open>C6: a failed ledger append does not fail the registration\<close>

text \<open>
  Claim C6, as amended. When a registration call has passed every check and deducted
  the fee, the entry-fee ledger append fails, and the Registration record is accepted
  by its unique indexes, the call completes: both errors are written to the console,
  no ledger entry is stored, the registration record is created, the tournament's
  occupancy is updated and the success reply carries the split and the new balance
  (the sum of the two balances that the deduction left).
\<close>

theorem ledger_failure_not_fatal:
  assumes "tournaments s tid = Some t" and "tournamentId t \<noteq> []"
      and "reserve t uid = None"
      and "validateBody t (Some ff) ta ts = None"
      and "users s uid = Some u"
      and "deductFee env (depositAmount u) (winningAmount u) (entryFee t) = Inr (a, b, d', w')"
      and "\<not> regConflict s (newRegistration uid tid t ff ts)"
  shows "fst (register env False s uid tid (Some ff) ta ts) =
           Registered a b (jsAdd env d' w') (if requiresTeamSelection t then ts else None) \<and>
         registrations (snd (register env False s uid tid (Some ff) ta ts)) =
           registrations s @ [newRegistration uid tid t ff ts] \<and>
         tournaments (snd (register env False s uid tid (Some ff) ta ts)) =
           (tournaments s)(tid \<mapsto> t\<lparr>registeredUsers := registeredUsers t @ [uid],
                                    registeredPlayers := jsAdd env (registeredPlayers t) 1\<rparr>) \<and>
         users (snd (register env False s uid tid (Some ff) ta ts)) =
           (users s)(uid \<mapsto> u\<lparr>depositAmount := d', winningAmount := w'\<rparr>) \<and>
         transactions (snd (register env False s uid tid (Some ff) ta ts)) = transactions s \<and>
         console (snd (register env False s uid tid (Some ff) ta ts)) =
           console s @ [''Error logging transaction:'', ''Error logging entry fee transaction:'']"
proof -
  have v: "validRegistration (newRegistration uid tid t ff ts)"
    using assms(4,2) by (rule validateBody_valid)
  show ?thesis
    unfolding register_reaches_commit[OF assms(1,3,4,5,6)]
    using commit_ok[OF v assms(7), of env False u a b d' w']
      commit_ledger_down[OF v assms(7), of env u a b d' w']
    by simp
qed

theorem ledger_failure_not_fatal_witness:
  "tournaments exDb idT1 = Some exSolo \<and> tournamentId exSolo \<noteq> [] \<and>
   reserve exSolo idU1 = None \<and>
   validateBody exSolo (Some ''456'') (JBool True) None = None \<and>
   users exDb idU1 = Some \<lparr>depositAmount = 30, winningAmount = 20\<rparr> \<and>
   deductFee exRuntime 30 20 (entryFee exSolo) = Inr (30, 10, 0, 10) \<and>
   \<not> regConflict exDb (newRegistration idU1 idT1 exSolo ''456'' None) \<and>
   fst (register exRuntime False exDb idU1 idT1 (Some ''456'') (JBool True) None) =
     Registered 30 10 10 None \<and>
   transactions (snd (register exRuntime False exDb idU1 idT1 (Some ''456'') (JBool True) None)) =
     [] \<and>
   console (snd (register exRuntime False exDb idU1 idT1 (Some ''456'') (JBool True) None)) =
     [''Error logging transaction:'', ''Error logging entry fee transaction:'']"
proof -
  let ?u = "\<lparr>depositAmount = 30, winningAmount = 20\<rparr>"
  have h1: "tournaments exDb idT1 = Some exSolo" by (simp add: ex_defs)
  have h2: "tournamentId exSolo \<noteq> []" by (simp add: ex_defs)
  have h3: "reserve exSolo idU1 = None" by (simp add: ex_defs reserve_def)
  have h4: "validateBody exSolo (Some ''456'') (JBool True) None = None"
    by (simp add: ex_defs reg_defs)
  have h5: "users exDb idU1 = Some ?u" by (simp add: ex_defs)
  have h6': "deductFee exRuntime 30 20 (entryFee exSolo) = Inr (30, 10, 0, 10)"
    by (simp add: ex_defs reg_defs exRuntime_simps roundDouble_whole)
  then have h6: "deductFee exRuntime (depositAmount ?u) (winningAmount ?u) (entryFee exSolo) =
      Inr (30, 10, 0, 10)"
    by simp
  have h7: "\<not> regConflict exDb (newRegistration idU1 idT1 exSolo ''456'' None)"
    by (simp add: ex_defs reg_defs)
  have e: "requiresTeamSelection exSolo = False" "transactions exDb = []" "console exDb = []"
          "jsAdd exRuntime 0 10 = 10"
    by (simp_all add: ex_defs requiresTeamSelection_def jsAdd_def exRuntime_simps
        roundDouble_whole)
  show ?thesis
    using ledger_failure_not_fatal[OF h1 h2 h3 h4 h5 h6 h7] h1 h2 h3 h4 h5 h6' h7
    by (simp add: e)
qed

text \<open>
  The claim as stated (success for every call in which the checks and the deduction
  succeed and the append fails) does not hold when the Registration record is then
  refused: with the ledger unreachable, the first user registering under the Free
  Fire id of the second passes the checks, is deducted, and is answered with the
  already-registered failure; no record is created.
\<close>

theorem ledger_failure_then_conflict_counterexample:
  "tournaments exDb idT1 = Some exSolo \<and>
   reserve exSolo idU1 = None \<and>
   validateBody exSolo (Some ''123'') (JBool True) None = None \<and>
   users exDb idU1 = Some \<lparr>depositAmount = 30, winningAmount = 20\<rparr> \<and>
   deductFee exRuntime 30 20 (entryFee exSolo) = Inr (30, 10, 0, 10) \<and>
   fst (logTransaction False exDb idU1 ''entry_fee'' (- 40) ''Entry fee for tournament: FF-001''
          idT1 ''tournament_id'' (Some idT1)) = Inl StorageError \<and>
   fst (register exRuntime False exDb idU1 idT1 (Some ''123'') (JBool True) None) =
     Reject DuplicateRegistration \<and>
   registrations (snd (register exRuntime False exDb idU1 idT1 (Some ''123'') (JBool True) None)) =
     registrations exDb"
  by (simp add: ex_defs reg_defs exRuntime_simps roundDouble_whole)

section \<open>C8: validation of the registration input\<close>

text \<open>
  Claim C8, as amended. The handler's input check passes exactly when the Free Fire id
  is present and, with surrounding white space removed, is a non-empty string of
  decimal digits; the terms acceptance is truthy; and, when the tournament's team size
  is 2v2, 4v4 or 6v6, the team selection is \<open>team_a\<close> or \<open>team_b\<close> (a team selection
  supplied for another team size is not looked at). An input that does not pass is
  rejected with the state unchanged.
\<close>

theorem registration_input_validation:
  assumes "tournaments s tid = Some t"
  shows "(validateBody t ffo ta ts = None \<longleftrightarrow>
            (\<exists>ff. ffo = Some ff \<and> digitsOnly (trim ff)) \<and> truthy ta \<and>
            (requiresTeamSelection t \<longrightarrow> ts = Some ''team_a'' \<or> ts = Some ''team_b'')) \<and>
         (validateBody t ffo ta ts \<noteq> None \<longrightarrow>
            (\<exists>e. register env up s uid tid ffo ta ts = (Reject e, s)))"
proof (intro conjI impI)
  show "validateBody t ffo ta ts = None \<longleftrightarrow>
          (\<exists>ff. ffo = Some ff \<and> digitsOnly (trim ff)) \<and> truthy ta \<and>
          (requiresTeamSelection t \<longrightarrow> ts = Some ''team_a'' \<or> ts = Some ''team_b'')"
    by (rule validateBody_None_iff)
next
  assume "validateBody t ffo ta ts \<noteq> None"
  with assms show "\<exists>e. register env up s uid tid ffo ta ts = (Reject e, s)"
    by (rule register_rejects_invalid)
qed

theorem registration_input_validation_witness:
  "tournaments exDb idT4 = Some exSquad \<and>
   validateBody exSquad (Some ''456'') (JBool True) None \<noteq> None \<and>
   (\<exists>e. register exRuntime True exDb idU1 idT4 (Some ''456'') (JBool True) None =
      (Reject e, exDb))"
proof -
  have h1: "tournaments exDb idT4 = Some exSquad" by (simp add: ex_defs)
  have h2: "validateBody exSquad (Some ''456'') (JBool True) None \<noteq> None"
    by (simp add: ex_defs reg_defs)
  have "validateBody exSquad (Some ''456'') (JBool True) None \<noteq> None \<longrightarrow>
        (\<exists>e. register exRuntime True exDb idU1 idT4 (Some ''456'') (JBool True) None =
           (Reject e, exDb))"
    using registration_input_validation[OF h1, where ffo = "Some ''456''" and ta = "JBool True"
        and ts = None and env = exRuntime and up = True and uid = idU1]
    by (rule conjunct2)
  then have r: "\<exists>e. register exRuntime True exDb idU1 idT4 (Some ''456'') (JBool True) None =
      (Reject e, exDb)"
    using h2 by (rule mp)
  show ?thesis using h1 h2 r by (intro conjI)
qed

text \<open>
  The claim as stated fails in each of its three parts: the handler accepts the Free
  Fire id \<open>0\<close>, which is no positive integer; it accepts the terms acceptance
  \<open>"no"\<close>, a non-empty string and therefore truthy; and it accepts a team selection
  for a solo tournament.
\<close>

theorem input_validation_counterexample:
  "\<not> specInputAcceptable exSolo (Some ''0'') (JBool True) None \<and>
   fst (register exRuntime True exDb idU1 idT1 (Some ''0'') (JBool True) None) =
     Registered 30 10 10 None \<and>
   \<not> specInputAcceptable exSolo (Some ''456'') (JStr ''no'') None \<and>
   fst (register exRuntime True exDb idU1 idT1 (Some ''456'') (JStr ''no'') None) =
     Registered 30 10 10 None \<and>
   \<not> specInputAcceptable exSolo (Some ''456'') (JBool True) (Some ''team_a'') \<and>
   fst (register exRuntime True exDb idU1 idT1 (Some ''456'') (JBool True) (Some ''team_a'')) =
     Registered 30 10 10 None"
proof -
  have a: "\<not> specInputAcceptable exSolo (Some ''0'') (JBool True) None"
    by (simp add: specInputAcceptable_def specPositiveIntegerLiteral_def)
  have b: "\<not> specInputAcceptable exSolo (Some ''456'') (JStr ''no'') None"
    by (simp add: specInputAcceptable_def)
  have c: "\<not> specInputAcceptable exSolo (Some ''456'') (JBool True) (Some ''team_a'')"
    by (simp add: specInputAcceptable_def requiresTeamSelection_def exSolo_def)
  have a': "fst (register exRuntime True exDb idU1 idT1 (Some ''0'') (JBool True) None) =
     Registered 30 10 10 None"
    by (simp add: ex_defs reg_defs exRuntime_simps roundDouble_whole)
  have b': "fst (register exRuntime True exDb idU1 idT1 (Some ''456'') (JStr ''no'') None) =
     Registered 30 10 10 None"
    by (simp add: ex_defs reg_defs exRuntime_simps roundDouble_whole)
  have c': "fst (register exRuntime True exDb idU1 idT1 (Some ''456'') (JBool True)
                  (Some ''team_a'')) =
     Registered 30 10 10 None"
    by (simp add: ex_defs reg_defs exRuntime_simps roundDouble_whole)
  show ?thesis using a a' b b' c c' by (intro conjI)
qed

section \<open>C10: the team selection of a solo tournament is discarded\<close>

text \<open>
  Claim C10. After a successful registration for a tournament whose team size is none
  of 2v2, 4v4, 6v6, the reply's \<open>teamAssigned\<close> is null and the one registration
  record the call appended has a null \<open>teamSelection\<close>, whatever team selection the
  caller supplied.
\<close>

theorem solo_team_selection_discarded:
  assumes "register env up s uid tid ffo ta ts = (Registered a b c team, s1)"
      and "tournaments s tid = Some t"
      and "teamSize t \<notin> set [Some TwoVTwo, Some FourVFour, Some SixVSix]"
  shows "team = None \<and>
         (\<exists>r. registrations s1 = registrations s @ [r] \<and>
               regUserId r = uid \<and> regTournamentId r = tid \<and> regTeamSelection r = None)"
proof -
  from assms(3) have n: "\<not> requiresTeamSelection t"
    by (simp add: requiresTeamSelection_def)
  from register_success[OF assms(1)] assms(2) obtain ff where
    "team = (if requiresTeamSelection t then ts else None)"
    "registrations s1 = registrations s @ [newRegistration uid tid t ff ts]"
    by auto
  with n show ?thesis by (simp add: newRegistration_def)
qed

theorem solo_team_selection_discarded_witness:
  "register exRuntime True exDb idU1 idT1 (Some ''456'') (JBool True) (Some ''team_a'') =
     (Registered 30 10 10 None,
      snd (register exRuntime True exDb idU1 idT1 (Some ''456'') (JBool True)
             (Some ''team_a''))) \<and>
   tournaments exDb idT1 = Some exSolo \<and>
   teamSize exSolo \<notin> set [Some TwoVTwo, Some FourVFour, Some SixVSix] \<and>
   (\<exists>r. registrations
           (snd (register exRuntime True exDb idU1 idT1 (Some ''456'') (JBool True)
                   (Some ''team_a''))) =
         registrations exDb @ [r] \<and>
         regUserId r = idU1 \<and> regTournamentId r = idT1 \<and> regTeamSelection r = None)"
proof -
  let ?c = "register exRuntime True exDb idU1 idT1 (Some ''456'') (JBool True) (Some ''team_a'')"
  have f: "fst ?c = Registered 30 10 10 None"
    by (simp add: ex_defs reg_defs exRuntime_simps roundDouble_whole)
  then have h1: "?c = (Registered 30 10 10 None, snd ?c)" by (simp add: prod_eq_iff)
  have h2: "tournaments exDb idT1 = Some exSolo" by (simp add: ex_defs)
  have h3: "teamSize exSolo \<notin> set [Some TwoVTwo, Some FourVFour, Some SixVSix]"
    by (simp add: ex_defs)
  have r: "\<exists>r. registrations (snd ?c) = registrations exDb @ [r] \<and>
         regUserId r = idU1 \<and> regTournamentId r = idT1 \<and> regTeamSelection r = None"
    using solo_team_selection_discarded[OF h1 h2 h3] by (rule conjunct2)
  show ?thesis using h1 h2 h3 r by (intro conjI)
qed

section \<open>C5: non-negative balances\<close>

lemmas award_defs = awardWinnings_def awardOne_def awardReference_def awardDescription_def
  showWhole_def showInt_def showNat.simps logTransaction_def findOneTransaction_def
  saveTransaction_def validTransaction_def txKey_def jsAdd_def jsSub_def hex24_def
  isHexDigit_def Let_def










subsection \<open>The award loop\<close>

lemma logTransaction_mono:
  "set (transactions s) \<subseteq> set (transactions (snd (logTransaction up s uid ty a de r rt m)))"
  by (auto simp: logTransaction_def saveTransaction_def Let_def split: option.splits)

lemma logTransaction_winning:
  assumes "r \<noteq> []" and "de \<noteq> []"
  shows "\<exists>e s1. logTransaction True s uid ''winning'' a de r
                  ''tournament_id'' m = (Inr e, s1) \<and>
                e \<in> set (transactions s1) \<and> txKey e = (uid, r, ''tournament_id'')"
proof (cases "findOneTransaction s uid r ''tournament_id''")
  case (Some x)
  then have "x \<in> set (transactions s) \<and> txKey x = (uid, r, ''tournament_id'')"
    by (auto simp: findOneTransaction_def find_Some_iff)
  with Some show ?thesis by (simp add: logTransaction_def)
next
  case None
  then have "(uid, r, ''tournament_id'') \<notin> set (map txKey (transactions s))"
    by (auto simp: findOneTransaction_def find_None_iff)
  with None assms show ?thesis
    by (simp add: logTransaction_def saveTransaction_def validTransaction_def txKey_def Let_def)
qed

lemma awardReference_nonempty: "awardReference env tid w \<noteq> []"
  by (simp add: awardReference_def)

lemma awardDescription_nonempty: "awardDescription env t w \<noteq> []"
  by (simp add: awardDescription_def)

lemma awardOne_ill_formed:
  "\<not> isValidId env (userId w) \<Longrightarrow> awardOne env up tid t s w = (Inl CastError, s)"
  by (simp add: awardOne_def)

lemma awardOne_missing:
  "isValidId env (userId w) \<Longrightarrow> users s (userId w) = None \<Longrightarrow>
     awardOne env up tid t s w = (Inr (AwardFailed (userId w) AwardUserNotFound), s)"
  by (simp add: awardOne_def)

lemma awardOne_users:
  "users (snd (awardOne env up tid t s w)) =
     (if \<not> isValidId env (userId w) then users s
      else case users s (userId w) of
             None \<Rightarrow> users s
           | Some u \<Rightarrow>
               (users s)(userId w \<mapsto> u\<lparr>winningAmount := jsAdd env (winningAmount u) (amount w)\<rparr>))"
proof (cases "isValidId env (userId w)")
  case False
  then show ?thesis by (simp add: awardOne_ill_formed)
next
  case True
  show ?thesis
  proof (cases "users s (userId w)")
    case None
    with True show ?thesis by (simp add: awardOne_missing)
  next
    case (Some u)
    let ?s1 = "s\<lparr>users := (users s)(userId w \<mapsto>
                  u\<lparr>winningAmount := jsAdd env (winningAmount u) (amount w)\<rparr>)\<rparr>"
    let ?lt = "logTransaction up ?s1 (userId w) ''winning'' (amount w) (awardDescription env t w)
                 (awardReference env tid w) ''tournament_id'' (Some tid)"
    obtain res s2 where lt: "?lt = (res, s2)" by (cases ?lt)
    have "users s2 = users ?s1"
      using logTransaction_frame[of up ?s1 "userId w" "''winning''" "amount w"
          "awardDescription env t w" "awardReference env tid w" "''tournament_id''" "Some tid"] lt
      by simp
    then show ?thesis
      using True Some lt by (cases res) (simp_all add: awardOne_def Let_def)
  qed
qed

lemma awardOne_mono:
  "set (transactions s) \<subseteq> set (transactions (snd (awardOne env up tid t s w)))"
proof (cases "isValidId env (userId w)")
  case False
  then show ?thesis by (simp add: awardOne_ill_formed)
next
  case True
  show ?thesis
  proof (cases "users s (userId w)")
    case None
    with True show ?thesis by (simp add: awardOne_missing)
  next
    case (Some u)
    let ?s1 = "s\<lparr>users := (users s)(userId w \<mapsto>
                  u\<lparr>winningAmount := jsAdd env (winningAmount u) (amount w)\<rparr>)\<rparr>"
    let ?lt = "logTransaction up ?s1 (userId w) ''winning'' (amount w) (awardDescription env t w)
                 (awardReference env tid w) ''tournament_id'' (Some tid)"
    obtain res s2 where lt: "?lt = (res, s2)" by (cases ?lt)
    have "set (transactions ?s1) \<subseteq> set (transactions s2)"
      using logTransaction_mono[of ?s1 up "userId w" "''winning''" "amount w"
          "awardDescription env t w" "awardReference env tid w" "''tournament_id''" "Some tid"] lt
      by simp
    then show ?thesis
      using True Some lt by (cases res) (simp_all add: awardOne_def Let_def)
  qed
qed

lemma awardOne_found_up:
  assumes "isValidId env (userId w)" and "users s (userId w) = Some u"
  shows "\<exists>s1. awardOne env True tid t s w =
           (Inr (AwardOk (userId w) (amount w) (jsAdd env (winningAmount u) (amount w))
                   (jsAdd env (depositAmount u) (jsAdd env (winningAmount u) (amount w)))), s1) \<and>
         (\<exists>tx\<in>set (transactions s1).
            txKey tx = (userId w, awardReference env tid w, ''tournament_id''))"
proof -
  let ?s1 = "s\<lparr>users := (users s)(userId w \<mapsto>
                u\<lparr>winningAmount := jsAdd env (winningAmount u) (amount w)\<rparr>)\<rparr>"
  from logTransaction_winning[OF awardReference_nonempty awardDescription_nonempty,
      of ?s1 "userId w" "amount w" env t w env tid w "Some tid"]
  obtain e s2 where
    "logTransaction True ?s1 (userId w) ''winning'' (amount w) (awardDescription env t w)
       (awardReference env tid w) ''tournament_id'' (Some tid) = (Inr e, s2)"
    "e \<in> set (transactions s2)"
    "txKey e = (userId w, awardReference env tid w, ''tournament_id'')"
    by (elim exE conjE)
  with assms show ?thesis
    by (auto simp: awardOne_def Let_def)
qed

lemma awardOne_found_down:
  assumes "isValidId env (userId w)" and "users s (userId w) = Some u"
  shows "fst (awardOne env False tid t s w) =
           Inr (AwardFailed (userId w) FailedToLogTransaction)"
  using assms by (simp add: awardOne_def logTransaction_def Let_def)

lemma awardOne_Inr_valid:
  "awardOne env up tid t s w = (Inr r, s1) \<Longrightarrow> isValidId env (userId w)"
  by (cases "isValidId env (userId w)") (simp_all add: awardOne_ill_formed)

lemma awardOne_valid_Inr:
  "isValidId env (userId w) \<Longrightarrow> \<exists>r. fst (awardOne env up tid t s w) = Inr r"
  by (cases "users s (userId w)")
     (auto simp: awardOne_def Let_def split: prod.splits sum.splits)

lemma awardLoop_total:
  "list_all (\<lambda>w. isValidId env (userId w)) ws \<Longrightarrow>
     \<exists>rs. fst (awardLoop env up tid t s ws) = Inr rs"
proof (induction ws arbitrary: s)
  case Nil
  then show ?case by simp
next
  case (Cons w ws)
  from Cons.prems have v: "isValidId env (userId w)" by simp
  from awardOne_valid_Inr[OF v, of up tid t s]
  obtain r where r: "fst (awardOne env up tid t s w) = Inr r" ..
  obtain s1 where o: "awardOne env up tid t s w = (Inr r, s1)"
    using r by (cases "awardOne env up tid t s w") simp
  from Cons.IH[of s1] Cons.prems
  obtain rs where "fst (awardLoop env up tid t s1 ws) = Inr rs" by auto
  then obtain s2 where l: "awardLoop env up tid t s1 ws = (Inr rs, s2)"
    by (cases "awardLoop env up tid t s1 ws") simp
  from o l show ?case by simp
qed

lemma awardLoop_Cons_Inr:
  assumes "awardLoop env up tid t s (w # ws) = (Inr rs, s')"
  obtains r s1 rs1 where "awardOne env up tid t s w = (Inr r, s1)"
    and "awardLoop env up tid t s1 ws = (Inr rs1, s')" and "rs = r # rs1"
proof -
  obtain x s1 where o: "awardOne env up tid t s w = (x, s1)"
    by (cases "awardOne env up tid t s w")
  obtain y s2 where l: "awardLoop env up tid t s1 ws = (y, s2)"
    by (cases "awardLoop env up tid t s1 ws")
  from assms o l obtain r where r: "x = Inr r" by (cases x) simp_all
  from assms o l r obtain rs1 where rs1: "y = Inr rs1" by (cases y) simp_all
  from assms o l r rs1 have "rs = r # rs1" "s' = s2" by simp_all
  with o l r rs1 that show ?thesis by simp
qed

lemma awardLoop_length:
  "awardLoop env up tid t s ws = (Inr rs, s') \<Longrightarrow> length rs = length ws"
proof (induction ws arbitrary: s rs)
  case Nil
  then show ?case by simp
next
  case (Cons w ws)
  from Cons.prems obtain r s1 rs1 where
    "awardLoop env up tid t s1 ws = (Inr rs1, s')" "rs = r # rs1"
    by (rule awardLoop_Cons_Inr)
  with Cons.IH[of s1 rs1] show ?case by simp
qed

lemma awardLoop_mono:
  "set (transactions s) \<subseteq> set (transactions (snd (awardLoop env up tid t s ws)))"
proof (induction ws arbitrary: s)
  case Nil
  then show ?case by simp
next
  case (Cons w ws)
  obtain x s1 where o: "awardOne env up tid t s w = (x, s1)"
    by (cases "awardOne env up tid t s w")
  obtain y s2 where l: "awardLoop env up tid t s1 ws = (y, s2)"
    by (cases "awardLoop env up tid t s1 ws")
  from awardOne_mono[of s env up tid t w] o
  have a: "set (transactions s) \<subseteq> set (transactions s1)" by simp
  from Cons.IH[of s1] l have b: "set (transactions s1) \<subseteq> set (transactions s2)" by simp
  show ?case
  proof (cases x)
    case (Inl e)
    with o a show ?thesis by simp
  next
    case (Inr r)
    with o l a b show ?thesis by (cases y) auto
  qed
qed

lemma awardLoop_users:
  assumes "awardLoop env up tid t s ws = (Inr rs, s')"
  shows "users s' uid =
     map_option
       (\<lambda>u. u\<lparr>winningAmount :=
                 foldl (\<lambda>acc w. jsAdd env acc (amount w)) (winningAmount u)
                   (filter (\<lambda>w. userId w = uid) ws)\<rparr>)
       (users s uid)"
  using assms
proof (induction ws arbitrary: s rs)
  case Nil
  then show ?case by (cases "users s uid") simp_all
next
  case (Cons w ws)
  from Cons.prems obtain r s1 rs1 where
    o: "awardOne env up tid t s w = (Inr r, s1)" and
    l: "awardLoop env up tid t s1 ws = (Inr rs1, s')"
    by (rule awardLoop_Cons_Inr)
  from o have v: "isValidId env (userId w)" by (rule awardOne_Inr_valid)
  have u1: "users s1 =
     (case users s (userId w) of
        None \<Rightarrow> users s
      | Some u \<Rightarrow>
          (users s)(userId w \<mapsto> u\<lparr>winningAmount := jsAdd env (winningAmount u) (amount w)\<rparr>))"
    using awardOne_users[of env up tid t s w] o v by simp
  have ih: "users s' uid =
     map_option
       (\<lambda>u. u\<lparr>winningAmount :=
                 foldl (\<lambda>acc w. jsAdd env acc (amount w)) (winningAmount u)
                   (filter (\<lambda>w. userId w = uid) ws)\<rparr>)
       (users s1 uid)"
    using l by (rule Cons.IH)
  show ?case
    unfolding ih u1
    by (cases "users s (userId w)"; cases "users s uid") auto
qed

lemma awardLoop_results:
  assumes "awardLoop env up tid t s ws = (Inr rs, s')"
  shows "list_all2
     (\<lambda>w r. (users s (userId w) = None \<longrightarrow> r = AwardFailed (userId w) AwardUserNotFound) \<and>
            (users s (userId w) \<noteq> None \<and> up \<longrightarrow>
               (\<exists>nw nt. r = AwardOk (userId w) (amount w) nw nt) \<and>
               (\<exists>tx\<in>set (transactions s').
                  txKey tx = (userId w, awardReference env tid w, ''tournament_id''))) \<and>
            (users s (userId w) \<noteq> None \<and> \<not> up \<longrightarrow>
               r = AwardFailed (userId w) FailedToLogTransaction))
     ws rs"
  using assms
proof (induction ws arbitrary: s rs)
  case Nil
  then show ?case by simp
next
  case (Cons w ws)
  from Cons.prems obtain r s1 rs1 where
    o: "awardOne env up tid t s w = (Inr r, s1)" and
    l: "awardLoop env up tid t s1 ws = (Inr rs1, s')" and
    e: "rs = r # rs1"
    by (rule awardLoop_Cons_Inr)
  from o have v: "isValidId env (userId w)" by (rule awardOne_Inr_valid)
  have dom: "\<And>x. (users s1 x = None) = (users s x = None)"
    using awardOne_users[of env up tid t s w] o by (auto split: option.splits)
  have mono: "set (transactions s1) \<subseteq> set (transactions s')"
    using awardLoop_mono[of s1 env up tid t ws] l by simp
  have hd1: "users s (userId w) = None \<longrightarrow> r = AwardFailed (userId w) AwardUserNotFound"
    using o v by (auto simp: awardOne_missing)
  have hd2: "users s (userId w) \<noteq> None \<and> up \<longrightarrow>
               (\<exists>nw nt. r = AwardOk (userId w) (amount w) nw nt) \<and>
               (\<exists>tx\<in>set (transactions s').
                  txKey tx = (userId w, awardReference env tid w, ''tournament_id''))"
  proof (intro impI)
    assume a: "users s (userId w) \<noteq> None \<and> up"
    then obtain u where u: "users s (userId w) = Some u" by auto
    from awardOne_found_up[OF v u, of tid t] a o
    have "r = AwardOk (userId w) (amount w) (jsAdd env (winningAmount u) (amount w))
              (jsAdd env (depositAmount u) (jsAdd env (winningAmount u) (amount w)))"
      and "\<exists>tx\<in>set (transactions s1).
              txKey tx = (userId w, awardReference env tid w, ''tournament_id'')"
      by auto
    with mono show "(\<exists>nw nt. r = AwardOk (userId w) (amount w) nw nt) \<and>
               (\<exists>tx\<in>set (transactions s').
                  txKey tx = (userId w, awardReference env tid w, ''tournament_id''))"
      by auto
  qed
  have hd3: "users s (userId w) \<noteq> None \<and> \<not> up \<longrightarrow>
               r = AwardFailed (userId w) FailedToLogTransaction"
  proof (intro impI)
    assume a: "users s (userId w) \<noteq> None \<and> \<not> up"
    then obtain u where u: "users s (userId w) = Some u" by auto
    from awardOne_found_down[OF v u, of tid t] a o
    show "r = AwardFailed (userId w) FailedToLogTransaction" by simp
  qed
  have tl: "list_all2
     (\<lambda>w r. (users s (userId w) = None \<longrightarrow> r = AwardFailed (userId w) AwardUserNotFound) \<and>
            (users s (userId w) \<noteq> None \<and> up \<longrightarrow>
               (\<exists>nw nt. r = AwardOk (userId w) (amount w) nw nt) \<and>
               (\<exists>tx\<in>set (transactions s').
                  txKey tx = (userId w, awardReference env tid w, ''tournament_id''))) \<and>
            (users s (userId w) \<noteq> None \<and> \<not> up \<longrightarrow>
               r = AwardFailed (userId w) FailedToLogTransaction))
     ws rs1"
    using Cons.IH[OF l] by (simp add: dom)
  show ?case unfolding e using hd1 hd2 hd3 tl by simp
qed

lemma awardLoop_abort:
  assumes "list_all (\<lambda>w. isValidId env (userId w)) pre" and "\<not> isValidId env (userId w)"
  shows "awardLoop env up tid t s (pre @ w # post) =
           (Inl CastError, snd (awardLoop env up tid t s pre))"
  using assms(1)
proof (induction pre arbitrary: s)
  case Nil
  show ?case using assms(2) by (simp add: awardOne_ill_formed)
next
  case (Cons p pre)
  from Cons.prems have v: "isValidId env (userId p)"
    and vs: "list_all (\<lambda>w. isValidId env (userId w)) pre" by simp_all
  from awardOne_valid_Inr[OF v, of up tid t s]
  obtain r where r: "fst (awardOne env up tid t s p) = Inr r" ..
  obtain s1 where o: "awardOne env up tid t s p = (Inr r, s1)"
    using r by (cases "awardOne env up tid t s p") simp
  from awardLoop_total[OF vs, of up tid t s1]
  obtain rs where "fst (awardLoop env up tid t s1 pre) = Inr rs" ..
  then obtain s2 where l: "awardLoop env up tid t s1 pre = (Inr rs, s2)"
    by (cases "awardLoop env up tid t s1 pre") simp
  from Cons.IH[OF vs, of s1] l
  have "awardLoop env up tid t s1 (pre @ w # post) = (Inl CastError, s2)" by simp
  with o l show ?case by simp
qed









section \<open>C7: the award batch\<close>

text \<open>
  Claim C7, as amended. For a tournament that exists: when its status is not completed
  the award call fails and returns the state unchanged (so no balance changes). When
  it is completed (the caller being an administrator) and the \<open>userId\<close> of every
  winner casts to an ObjectId, the call answers with one result per winner, in order,
  and no result ends the batch: a winner whose \<open>userId\<close> matches no user gets the
  user-not-found failure; with the ledger reachable every winner whose user exists
  gets a success result carrying the winner's amount, and the final ledger holds an
  entry under the winner's key
  \<open>(userId, tournamentId_userId_position, tournament_id)\<close>; with the ledger
  unreachable such a winner gets the failed-to-log failure. Afterwards every user's
  winning balance is the former one with the amounts of exactly the winners that name
  that user added in the order of the list, each addition rounded (the credit is
  stored before the ledger append, so it stands also where the append failed), the
  deposit balance is unchanged, and no user is created. A winner whose \<open>userId\<close>
  does not cast ends the batch: the call answers with the server error and no
  per-winner results, the winners before it have been processed as above and keep
  their credit, and neither that winner nor those after it are processed.
\<close>

theorem award_contract:
  assumes "tournaments s tid = Some t" and "isValidId env tid"
  shows "(status t \<noteq> Completed \<longrightarrow>
            (\<exists>e. awardWinnings env up s role tid ws = (Reject e, s))) \<and>
         (status t = Completed \<and> role = ''admin'' \<and> tid \<noteq> [] \<and>
          list_all (\<lambda>w. isValidId env (userId w)) ws \<longrightarrow>
            (\<exists>rs s'. awardWinnings env up s role tid ws = (WinningsProcessed tid rs, s') \<and>
               length rs = length ws \<and>
               list_all2
                 (\<lambda>w r. (users s (userId w) = None \<longrightarrow>
                           r = AwardFailed (userId w) AwardUserNotFound) \<and>
                        (users s (userId w) \<noteq> None \<and> up \<longrightarrow>
                           (\<exists>nw nt. r = AwardOk (userId w) (amount w) nw nt) \<and>
                           (\<exists>tx\<in>set (transactions s').
                              txKey tx =
                                (userId w, awardReference env tid w, ''tournament_id''))) \<and>
                        (users s (userId w) \<noteq> None \<and> \<not> up \<longrightarrow>
                           r = AwardFailed (userId w) FailedToLogTransaction))
                 ws rs \<and>
               (\<forall>uid. users s' uid =
                  map_option
                    (\<lambda>u. u\<lparr>winningAmount :=
                              foldl (\<lambda>acc w. jsAdd env acc (amount w)) (winningAmount u)
                                (filter (\<lambda>w. userId w = uid) ws)\<rparr>)
                    (users s uid)))) \<and>
         (status t = Completed \<and> role = ''admin'' \<and> tid \<noteq> [] \<and>
          list_all (\<lambda>w. isValidId env (userId w)) pre \<and> \<not> isValidId env (userId x) \<longrightarrow>
            awardWinnings env up s role tid (pre @ x # post) =
              (Reject ServerError,
               (snd (awardWinnings env up s role tid pre))
                 \<lparr>console := console (snd (awardWinnings env up s role tid pre)) @
                               [''Error awarding winnings:'']\<rparr>))"
proof (intro conjI impI)
  assume "status t \<noteq> Completed"
  with assms show "\<exists>e. awardWinnings env up s role tid ws = (Reject e, s)"
    by (simp add: awardWinnings_def)
next
  assume a: "status t = Completed \<and> role = ''admin'' \<and> tid \<noteq> [] \<and>
             list_all (\<lambda>w. isValidId env (userId w)) ws"
  then have "list_all (\<lambda>w. isValidId env (userId w)) ws" by simp
  from awardLoop_total[OF this, of up tid t s]
  obtain rs where "fst (awardLoop env up tid t s ws) = Inr rs" ..
  then obtain s' where l: "awardLoop env up tid t s ws = (Inr rs, s')"
    by (cases "awardLoop env up tid t s ws") simp
  have r: "awardWinnings env up s role tid ws = (WinningsProcessed tid rs, s')"
    using a assms l by (simp add: awardWinnings_def)
  have len: "length rs = length ws"
    using l by (rule awardLoop_length)
  have res: "list_all2
                 (\<lambda>w r. (users s (userId w) = None \<longrightarrow>
                           r = AwardFailed (userId w) AwardUserNotFound) \<and>
                        (users s (userId w) \<noteq> None \<and> up \<longrightarrow>
                           (\<exists>nw nt. r = AwardOk (userId w) (amount w) nw nt) \<and>
                           (\<exists>tx\<in>set (transactions s').
                              txKey tx =
                                (userId w, awardReference env tid w, ''tournament_id''))) \<and>
                        (users s (userId w) \<noteq> None \<and> \<not> up \<longrightarrow>
                           r = AwardFailed (userId w) FailedToLogTransaction))
                 ws rs"
    using l by (rule awardLoop_results)
  have us: "\<forall>uid. users s' uid =
                  map_option
                    (\<lambda>u. u\<lparr>winningAmount :=
                              foldl (\<lambda>acc w. jsAdd env acc (amount w)) (winningAmount u)
                                (filter (\<lambda>w. userId w = uid) ws)\<rparr>)
                    (users s uid)"
    using awardLoop_users[OF l] by simp
  show "\<exists>rs s'. awardWinnings env up s role tid ws = (WinningsProcessed tid rs, s') \<and>
               length rs = length ws \<and>
               list_all2
                 (\<lambda>w r. (users s (userId w) = None \<longrightarrow>
                           r = AwardFailed (userId w) AwardUserNotFound) \<and>
                        (users s (userId w) \<noteq> None \<and> up \<longrightarrow>
                           (\<exists>nw nt. r = AwardOk (userId w) (amount w) nw nt) \<and>
                           (\<exists>tx\<in>set (transactions s').
                              txKey tx =
                                (userId w, awardReference env tid w, ''tournament_id''))) \<and>
                        (users s (userId w) \<noteq> None \<and> \<not> up \<longrightarrow>
                           r = AwardFailed (userId w) FailedToLogTransaction))
                 ws rs \<and>
               (\<forall>uid. users s' uid =
                  map_option
                    (\<lambda>u. u\<lparr>winningAmount :=
                              foldl (\<lambda>acc w. jsAdd env acc (amount w)) (winningAmount u)
                                (filter (\<lambda>w. userId w = uid) ws)\<rparr>)
                    (users s uid))"
    using r len res us by (intro exI conjI)
next
  assume a: "status t = Completed \<and> role = ''admin'' \<and> tid \<noteq> [] \<and>
             list_all (\<lambda>w. isValidId env (userId w)) pre \<and> \<not> isValidId env (userId x)"
  then have v: "list_all (\<lambda>w. isValidId env (userId w)) pre"
    and n: "\<not> isValidId env (userId x)" by simp_all
  from awardLoop_total[OF v, of up tid t s]
  obtain rs where "fst (awardLoop env up tid t s pre) = Inr rs" ..
  then obtain s' where l: "awardLoop env up tid t s pre = (Inr rs, s')"
    by (cases "awardLoop env up tid t s pre") simp
  have p: "awardWinnings env up s role tid pre = (WinningsProcessed tid rs, s')"
    using a assms l by (simp add: awardWinnings_def)
  have "awardLoop env up tid t s (pre @ x # post) = (Inl CastError, s')"
    using awardLoop_abort[OF v n, of up tid t s post] l by simp
  then have "awardWinnings env up s role tid (pre @ x # post) =
      (Reject ServerError, s'\<lparr>console := console s' @ [''Error awarding winnings:'']\<rparr>)"
    using a assms by (simp add: awardWinnings_def)
  with p show "awardWinnings env up s role tid (pre @ x # post) =
              (Reject ServerError,
               (snd (awardWinnings env up s role tid pre))
                 \<lparr>console := console (snd (awardWinnings env up s role tid pre)) @
                               [''Error awarding winnings:'']\<rparr>)"
    by simp
qed

theorem award_contract_witness:
  "tournaments exDb idT1 = Some exSolo \<and> isValidId exRuntime idT1 \<and>
   status exSolo \<noteq> Completed \<and>
   (\<exists>e. awardWinnings exRuntime True exDb ''admin'' idT1 exWinners = (Reject e, exDb)) \<and>
   tournaments exDb idT3 = Some exCompleted \<and> isValidId exRuntime idT3 \<and>
   status exCompleted = Completed \<and>
   list_all (\<lambda>w. isValidId exRuntime (userId w)) exWinners \<and>
   (\<exists>rs. fst (awardWinnings exRuntime True exDb ''admin'' idT3 exWinners) =
           WinningsProcessed idT3 rs \<and>
         length rs = 3) \<and>
   users (snd (awardWinnings exRuntime True exDb ''admin'' idT3 exWinners)) idU1 =
     Some \<lparr>depositAmount = 30, winningAmount = 70\<rparr> \<and>
   users (snd (awardWinnings exRuntime True exDb ''admin'' idT3 exWinners)) idNobody = None \<and>
   users (snd (awardWinnings exRuntime True exDb ''admin'' idT3 exWinners)) idU3 =
     Some \<lparr>depositAmount = 5, winningAmount = 17\<rparr> \<and>
   fst (awardWinnings exRuntime True exDb ''admin'' idT3 exWinners) =
     WinningsProcessed idT3
       [AwardOk idU1 50 70 100, AwardFailed idNobody AwardUserNotFound,
        AwardOk idU3 10 17 22] \<and>
   \<not> isValidId exRuntime ''ghost'' \<and>
   fst (awardWinnings exRuntime True exDb ''admin'' idT3 exWinnersIllFormed) =
     Reject ServerError \<and>
   users (snd (awardWinnings exRuntime True exDb ''admin'' idT3 exWinnersIllFormed)) =
     users (snd (awardWinnings exRuntime True exDb ''admin'' idT3
                   [\<lparr>userId = idU1, amount = 50, position = 1\<rparr>]))"
proof -
  let ?c = "awardWinnings exRuntime True exDb ''admin'' idT3 exWinners"
  let ?w1 = "\<lparr>userId = idU1, amount = 50, position = 1\<rparr>"
  let ?w2 = "\<lparr>userId = ''ghost'', amount = 30, position = 2\<rparr>"
  let ?w3 = "\<lparr>userId = idU3, amount = 10, position = 3\<rparr>"
  have h1: "tournaments exDb idT3 = Some exCompleted" by (simp add: ex_defs)
  have v3: "isValidId exRuntime idT3"
    by (simp add: exRuntime_simps hex24_def isHexDigit_def)
  have h2: "status exCompleted = Completed" by (simp add: ex_defs)
  have va: "list_all (\<lambda>w. isValidId exRuntime (userId w)) exWinners"
    by (simp add: exWinners_def exRuntime_simps hex24_def isHexDigit_def)
  have h3: "status exCompleted = Completed \<and> ''admin'' = ''admin'' \<and> idT3 \<noteq> [] \<and>
            list_all (\<lambda>w. isValidId exRuntime (userId w)) exWinners"
    using h2 va by simp
  note T = award_contract[OF h1 v3, where up = True and role = "''admin''" and ws = exWinners
      and pre = "[?w1]" and x = ?w2 and post = "[?w3]"]
  from mp[OF conjunct1[OF conjunct2[OF T]] h3]
  obtain rs s' where
    r: "?c = (WinningsProcessed idT3 rs, s')" and
    len: "length rs = length exWinners" and
    us: "\<forall>uid. users s' uid =
           map_option
             (\<lambda>u. u\<lparr>winningAmount :=
                       foldl (\<lambda>acc w. jsAdd exRuntime acc (amount w)) (winningAmount u)
                         (filter (\<lambda>w. userId w = uid) exWinners)\<rparr>)
             (users exDb uid)"
    by (elim exE conjE) (rule that)
  from r len have a: "\<exists>rs. fst ?c = WinningsProcessed idT3 rs \<and> length rs = 3"
    by (simp add: exWinners_def)
  have b: "users (snd ?c) idU1 = Some \<lparr>depositAmount = 30, winningAmount = 70\<rparr>"
    using us r by (simp add: exWinners_def ex_defs jsAdd_def exRuntime_simps roundDouble_whole)
  have c: "users (snd ?c) idNobody = None"
    using us r by (simp add: exWinners_def ex_defs)
  have d: "users (snd ?c) idU3 = Some \<lparr>depositAmount = 5, winningAmount = 17\<rparr>"
    using us r by (simp add: exWinners_def ex_defs jsAdd_def exRuntime_simps roundDouble_whole)
  have e: "fst ?c = WinningsProcessed idT3
       [AwardOk idU1 50 70 100, AwardFailed idNobody AwardUserNotFound,
        AwardOk idU3 10 17 22]"
    by (simp add: exWinners_def ex_defs award_defs exRuntime_simps roundDouble_whole)
  have n1: "tournaments exDb idT1 = Some exSolo" by (simp add: ex_defs)
  have v1: "isValidId exRuntime idT1"
    by (simp add: exRuntime_simps hex24_def isHexDigit_def)
  have n2: "status exSolo \<noteq> Completed" by (simp add: ex_defs)
  have n3: "\<exists>e. awardWinnings exRuntime True exDb ''admin'' idT1 exWinners = (Reject e, exDb)"
    using conjunct1[OF award_contract[OF n1 v1, where up = True and role = "''admin''"
          and ws = exWinners]] n2
    by (rule mp)
  have g: "\<not> isValidId exRuntime ''ghost''"
    by (simp add: exRuntime_simps hex24_def)
  have h4: "status exCompleted = Completed \<and> ''admin'' = ''admin'' \<and> idT3 \<noteq> [] \<and>
            list_all (\<lambda>w. isValidId exRuntime (userId w)) [?w1] \<and>
            \<not> isValidId exRuntime (userId ?w2)"
    using h2 g by (simp add: exRuntime_simps hex24_def isHexDigit_def)
  have ab: "awardWinnings exRuntime True exDb ''admin'' idT3 ([?w1] @ ?w2 # [?w3]) =
      (Reject ServerError,
       (snd (awardWinnings exRuntime True exDb ''admin'' idT3 [?w1]))
         \<lparr>console := console (snd (awardWinnings exRuntime True exDb ''admin'' idT3 [?w1])) @
                       [''Error awarding winnings:'']\<rparr>)"
    using conjunct2[OF conjunct2[OF T]] h4 by (rule mp)
  have ill: "exWinnersIllFormed = [?w1] @ ?w2 # [?w3]"
    by (simp add: exWinnersIllFormed_def)
  have f1: "fst (awardWinnings exRuntime True exDb ''admin'' idT3 exWinnersIllFormed) =
      Reject ServerError"
    unfolding ill ab by simp
  have f2: "users (snd (awardWinnings exRuntime True exDb ''admin'' idT3 exWinnersIllFormed)) =
      users (snd (awardWinnings exRuntime True exDb ''admin'' idT3 [?w1]))"
    unfolding ill ab by simp
  show ?thesis using n1 v1 n2 n3 h1 v3 h2 va a b c d e g f1 f2 by (intro conjI)
qed

lemma digit_one: "char_of (49::nat) = CHR ''1''"
  by code_simp

text \<open>
  The claim as stated (a winner whose \<open>userId\<close> matches no user yields a per-winner
  failure without ending the batch, and a batch of \<open>n\<close> winners returns \<open>n\<close>
  results) fails for a \<open>userId\<close> that is not an ObjectId: of three winners of the
  completed tournament the second is named \<open>ghost\<close>, which matches no user. The
  call answers with the server error (status 500) and no results; the first winner
  has been credited (the winning balance went from 20 to 70 and the ledger holds the
  entry), and the third, whose user exists, has not (the winning balance is still 7).
\<close>

theorem award_batch_abort_counterexample:
  "users exDb ''ghost'' = None \<and>
   tournaments exDb idT3 = Some exCompleted \<and> status exCompleted = Completed \<and>
   length exWinnersIllFormed = 3 \<and>
   fst (awardWinnings exRuntime True exDb ''admin'' idT3 exWinnersIllFormed) =
     Reject ServerError \<and>
   httpStatus ServerError = 500 \<and>
   users (snd (awardWinnings exRuntime True exDb ''admin'' idT3 exWinnersIllFormed)) idU1 =
     Some \<lparr>depositAmount = 30, winningAmount = 70\<rparr> \<and>
   map txKey
     (transactions (snd (awardWinnings exRuntime True exDb ''admin'' idT3 exWinnersIllFormed))) =
     [(idU1, idT3 @ ''_'' @ idU1 @ ''_1'', ''tournament_id'')] \<and>
   users exDb idU3 = Some \<lparr>depositAmount = 5, winningAmount = 7\<rparr> \<and>
   users (snd (awardWinnings exRuntime True exDb ''admin'' idT3 exWinnersIllFormed)) idU3 =
     Some \<lparr>depositAmount = 5, winningAmount = 7\<rparr>"
  by (simp add: exWinnersIllFormed_def ex_defs award_defs exRuntime_simps roundDouble_whole
      digit_one)


end
